theory Spec2Isabelle
  imports Complex_Main
begin

section \<open>Python values used by the movement controller\<close>

text \<open>
  The controller of \<^verbatim>\<open>movements.py\<close> receives angles, durations and repeat counts
  from tool calls. A Python number is an \<^verbatim>\<open>int\<close> or a \<^verbatim>\<open>float\<close>; the two print
  differently (\<^verbatim>\<open>30\<close> against \<^verbatim>\<open>30.0\<close>) and \<^verbatim>\<open>max\<close>/\<^verbatim>\<open>min\<close> return one of
  their arguments unchanged, so the model keeps the distinction. A float is idealised as
  the real number it stands for: rounding, infinities and NaN are outside the model.
\<close>

datatype pynum = PyInt int | PyFloat real

fun val :: "pynum \<Rightarrow> real" where
  "val (PyInt i) = real_of_int i"
| "val (PyFloat x) = x"

text \<open>
  Python's \<^verbatim>\<open>min(a, b)\<close> returns \<^verbatim>\<open>a\<close> unless \<^verbatim>\<open>b < a\<close>; \<^verbatim>\<open>max(a, b)\<close> returns
  \<^verbatim>\<open>a\<close> unless \<^verbatim>\<open>b > a\<close>. Comparison between int and float is by value.
\<close>

definition py_min :: "pynum \<Rightarrow> pynum \<Rightarrow> pynum" where
  "py_min a b = (if val b < val a then b else a)"

definition py_max :: "pynum \<Rightarrow> pynum \<Rightarrow> pynum" where
  "py_max a b = (if val a < val b then b else a)"

text \<open>
  The clamping idiom of the source, \<^verbatim>\<open>max(lo, min(hi, value))\<close>, written once.
  It appears inline in \<^verbatim>\<open>move_head_precise\<close> (roll, pitch, yaw), in
  \<^verbatim>\<open>move_antennas\<close> (radians) and in \<^verbatim>\<open>tilt_head\<close> (angle).
\<close>

definition clamp :: "pynum \<Rightarrow> pynum \<Rightarrow> pynum \<Rightarrow> pynum" where
  "clamp lo hi v = py_max lo (py_min hi v)"

text \<open>The four clamps of the source, with the bounds written as the source writes them.\<close>

definition clamp_roll :: "pynum \<Rightarrow> pynum" where
  "clamp_roll roll = clamp (PyInt (- 30)) (PyInt 30) roll"

definition clamp_pitch :: "pynum \<Rightarrow> pynum" where
  "clamp_pitch pitch = clamp (PyInt (- 30)) (PyInt 30) pitch"

definition clamp_yaw :: "pynum \<Rightarrow> pynum" where
  "clamp_yaw yaw = clamp (PyInt (- 45)) (PyInt 45) yaw"

definition clamp_rad :: "pynum \<Rightarrow> pynum" where
  "clamp_rad rad = clamp (PyFloat (- 1.57)) (PyFloat 1.57) rad"

subsection \<open>Printing numbers\<close>

text \<open>
  An f-string prints an int in decimal. The text Python prints for a float (its shortest
  round-trip representation) is a parameter \<open>float_str\<close> of the operations that print one.
\<close>

fun str_nat :: "nat \<Rightarrow> string" where
  "str_nat n = (if n < 10 then [''0123456789'' ! n]
                else str_nat (n div 10) @ [''0123456789'' ! (n mod 10)])"

declare str_nat.simps [simp del]

definition str_int :: "int \<Rightarrow> string" where
  "str_int i = (if i < 0 then CHR ''-'' # str_nat (nat (- i)) else str_nat (nat i))"

fun py_str :: "(real \<Rightarrow> string) \<Rightarrow> pynum \<Rightarrow> string" where
  "py_str float_str (PyInt i) = str_int i"
| "py_str float_str (PyFloat x) = float_str x"

section \<open>The robot, the trace of effects and the control flow\<close>

text \<open>
  \<^verbatim>\<open>create_head_pose(roll=.., pitch=.., yaw=.., degrees=True)\<close> belongs to the robot's
  library; the pose it builds is kept as the triple of its arguments (each defaults to 0).
\<close>

datatype head_pose = HeadPose (pose_roll: pynum) (pose_pitch: pynum) (pose_yaw: pynum)

definition create_head_pose :: "pynum \<Rightarrow> pynum \<Rightarrow> pynum \<Rightarrow> head_pose" where
  "create_head_pose roll pitch yaw = HeadPose roll pitch yaw"

text \<open>
  The three calls the controller makes on the robot:
  \<^verbatim>\<open>robot.goto_target(head=, antennas=, duration=)\<close>, \<^verbatim>\<open>robot.wake_up()\<close> and
  \<^verbatim>\<open>robot.goto_sleep()\<close>.
\<close>

datatype command =
    GotoTarget "head_pose option" "pynum list option" pynum
  | WakeUp
  | GotoSleep

datatype level = INFO | WARNING | ERROR

text \<open>
  Everything the controller does to the outside, in the order it does it: a call issued to
  the robot, an \<^verbatim>\<open>asyncio.sleep\<close>, a line written to the logger.
\<close>

datatype event = Device command | Sleep pynum | Log level string

text \<open>
  The robot is a parameter. Given everything that happened so far and the call, it either
  returns (\<open>None\<close>) or raises a Python \<^verbatim>\<open>Exception\<close> with a message (\<open>Some msg\<close>).
  Exceptions outside \<^verbatim>\<open>Exception\<close> (a cancelled task, a keyboard interrupt) and a call
  that never comes back are outside the model, and so is the clock: the trace records the
  order of the effects, not their times.
\<close>

type_synonym robot = "event list \<Rightarrow> command \<Rightarrow> string option"

text \<open>
  A coroutine of the controller takes the trace so far and gives the extended trace with
  either the value it returns or the exception that leaves it.
\<close>

datatype 'a outcome = Returned 'a | Raised string

type_synonym 'a io = "event list \<Rightarrow> 'a outcome \<times> event list"

definition io_return :: "'a \<Rightarrow> 'a io" where
  "io_return x w = (Returned x, w)"

definition io_raise :: "string \<Rightarrow> 'a io" where
  "io_raise e w = (Raised e, w)"

definition io_bind :: "'a io \<Rightarrow> ('a \<Rightarrow> 'b io) \<Rightarrow> 'b io" where
  "io_bind m f w = (case m w of
                      (Returned x, w') \<Rightarrow> f x w'
                    | (Raised e, w') \<Rightarrow> (Raised e, w'))"

text \<open>A sequence of statements: the first exception ends it.\<close>

fun block :: "unit io list \<Rightarrow> unit io" where
  "block [] = io_return ()"
| "block (s # ss) = io_bind s (\<lambda>_. block ss)"

text \<open>\<^verbatim>\<open>for _ in range(n): body\<close>; \<^verbatim>\<open>range\<close> of a non-positive int is empty.\<close>

definition for_range :: "int \<Rightarrow> unit io \<Rightarrow> unit io" where
  "for_range n body = block (replicate (nat n) body)"

text \<open>Statements followed by \<^verbatim>\<open>return x\<close>.\<close>

definition returning :: "unit io \<Rightarrow> 'a \<Rightarrow> 'a io" where
  "returning m x = io_bind m (\<lambda>_. io_return x)"

text \<open>\<^verbatim>\<open>try: body  except Exception as e: handler(e)\<close>.\<close>

definition try_except :: "'a io \<Rightarrow> (string \<Rightarrow> 'a io) \<Rightarrow> 'a io" where
  "try_except body handler w = (case body w of
                                  (Returned x, w') \<Rightarrow> (Returned x, w')
                                | (Raised e, w') \<Rightarrow> handler e w')"

definition logger :: "level \<Rightarrow> string \<Rightarrow> unit io" where
  "logger l msg w = (Returned (), w @ [Log l msg])"

definition asyncio_sleep :: "pynum \<Rightarrow> unit io" where
  "asyncio_sleep d w = (Returned (), w @ [Sleep d])"

text \<open>
  \<^verbatim>\<open>await asyncio.to_thread(robot.method, ...)\<close>: the call is issued, the coroutine waits
  for it, and an exception of the call is raised in the coroutine. The coroutine goes on
  only when the call has come back, so the next event of the trace is later than the return.
\<close>

definition to_thread :: "robot \<Rightarrow> command \<Rightarrow> unit io" where
  "to_thread r c w = (case r w c of
                        None \<Rightarrow> (Returned (), w @ [Device c])
                      | Some e \<Rightarrow> (Raised e, w @ [Device c]))"

section \<open>The movement controller\<close>

text \<open>\<^verbatim>\<open>MovementController._goto_target\<close> (the leading underscore is dropped).\<close>

definition goto_target :: "robot \<Rightarrow> head_pose option \<Rightarrow> pynum list option \<Rightarrow> pynum \<Rightarrow> unit io" where
  "goto_target r head antennas duration =
     try_except (to_thread r (GotoTarget head antennas duration))
                (\<lambda>e. logger ERROR (''Motion error: '' @ e))"

text \<open>\<^verbatim>\<open>move_head(direction, duration=0.5)\<close>. The dict \<^verbatim>\<open>poses\<close> is an association
  list; \<^verbatim>\<open>poses[direction]\<close> raises \<^verbatim>\<open>KeyError\<close> on a missing key.\<close>

definition poses :: "(string \<times> pynum \<times> pynum \<times> pynum) list" where
  "poses =
     [(''left'', PyInt 0, PyInt 0, PyInt 25),
      (''right'', PyInt 0, PyInt 0, PyInt (- 25)),
      (''up'', PyInt 0, PyInt (- 20), PyInt 0),
      (''down'', PyInt 0, PyInt 20, PyInt 0),
      (''center'', PyInt 0, PyInt 0, PyInt 0)]"

definition move_head :: "robot \<Rightarrow> string \<Rightarrow> pynum \<Rightarrow> string io" where
  "move_head r direction duration =
     (let unknown = (map_of poses direction = None);
          direction' = (if unknown then ''center'' else direction)
      in io_bind
           (if unknown
            then logger WARNING (''Unknown direction: '' @ direction @ '', using center'')
            else io_return ())
           (\<lambda>_. case map_of poses direction' of
                   None \<Rightarrow> io_raise (''KeyError: '' @ direction')
                 | Some (roll, pitch, yaw) \<Rightarrow>
                     returning
                       (block
                          [logger INFO (''Moving head '' @ direction'),
                           goto_target r (Some (create_head_pose roll pitch yaw)) None duration])
                       (''Moved head '' @ direction')))"

text \<open>\<^verbatim>\<open>move_head_precise(roll=0, pitch=0, yaw=0, duration=0.5)\<close>.\<close>

definition move_head_precise ::
  "robot \<Rightarrow> (real \<Rightarrow> string) \<Rightarrow> pynum \<Rightarrow> pynum \<Rightarrow> pynum \<Rightarrow> pynum \<Rightarrow> string io" where
  "move_head_precise r float_str roll pitch yaw duration =
     (let roll' = clamp_roll roll;
          pitch' = clamp_pitch pitch;
          yaw' = clamp_yaw yaw;
          pose = create_head_pose roll' pitch' yaw';
          angles = ''roll='' @ py_str float_str roll' @ '', pitch='' @ py_str float_str pitch'
                   @ '', yaw='' @ py_str float_str yaw'
      in returning
           (block
              [logger INFO (''Moving head to '' @ angles),
               goto_target r (Some pose) None duration])
           (''Moved head to '' @ angles))"

text \<open>
  \<^verbatim>\<open>np.radians(x)\<close>: degrees to radians, always a float. NumPy turns a Python int into a
  64-bit integer first (signed, or unsigned from \<open>2 ^ 63\<close> on); an int outside
  \<open>[- 2 ^ 63, 2 ^ 64)\<close> has no such form and the call raises \<^verbatim>\<open>TypeError\<close>. A float is
  always converted.
\<close>

definition np_radians :: "pynum \<Rightarrow> pynum outcome" where
  "np_radians x =
     (case x of
        PyFloat y \<Rightarrow> Returned (PyFloat (y * pi / 180))
      | PyInt i \<Rightarrow>
          if - (2 ^ 63) \<le> i \<and> i < 2 ^ 64
          then Returned (PyFloat (real_of_int i * pi / 180))
          else Raised
                 (''loop of ufunc does not support argument 0 of type int ''
                  @ ''which has no callable radians method''))"

text \<open>An expression that may raise, evaluated inside a coroutine.\<close>

definition io_of :: "'a outcome \<Rightarrow> 'a io" where
  "io_of out w = (out, w)"

text \<open>
  \<^verbatim>\<open>move_antennas(right_angle=0, left_angle=0, duration=0.3)\<close>. The two conversions come
  first, outside any \<^verbatim>\<open>try\<close>: the right angle, then the left.
\<close>

definition move_antennas ::
  "robot \<Rightarrow> (real \<Rightarrow> string) \<Rightarrow> pynum \<Rightarrow> pynum \<Rightarrow> pynum \<Rightarrow> string io" where
  "move_antennas r float_str right_angle left_angle duration =
     io_bind (io_of (np_radians right_angle))
       (\<lambda>right_converted.
          io_bind (io_of (np_radians left_angle))
            (\<lambda>left_converted.
               let right_rad = clamp_rad right_converted;
                   left_rad = clamp_rad left_converted
               in returning
                    (block
                       [logger INFO (''Moving antennas: right='' @ py_str float_str right_angle
                                     @ '', left='' @ py_str float_str left_angle),
                        goto_target r None (Some [right_rad, left_rad]) duration])
                    (''Moved antennas to right='' @ py_str float_str right_angle
                     @ '', left='' @ py_str float_str left_angle @ '' degrees'')))"

text \<open>\<^verbatim>\<open>antenna_expression(expression)\<close>.\<close>

definition expressions :: "(string \<times> pynum list) list" where
  "expressions =
     [(''neutral'', [PyInt 0, PyInt 0]),
      (''alert'', [PyFloat 0.8, PyFloat (- 0.8)]),
      (''droopy'', [PyFloat (- 1.0), PyFloat 1.0]),
      (''asymmetric'', [PyFloat 0.5, PyFloat 0.2]),
      (''perky'', [PyFloat 1.0, PyFloat (- 1.0)])]"

definition antenna_expression :: "robot \<Rightarrow> string \<Rightarrow> string io" where
  "antenna_expression r expression =
     (let expression' = (if map_of expressions expression = None then ''neutral'' else expression)
      in case map_of expressions expression' of
           None \<Rightarrow> io_raise (''KeyError: '' @ expression')
         | Some antennas \<Rightarrow>
             returning
               (block
                  [logger INFO (''Setting antenna expression: '' @ expression'),
                   goto_target r None (Some antennas) (PyFloat 0.3)])
               (''Set antennas to '' @ expression'))"

text \<open>\<^verbatim>\<open>nod_yes(times=2)\<close> and \<^verbatim>\<open>shake_no(times=2)\<close>; the int parameter \<^verbatim>\<open>times\<close> is written
  \<open>ntimes\<close> here.\<close>

definition nod_yes :: "robot \<Rightarrow> int \<Rightarrow> string io" where
  "nod_yes r ntimes =
     (let ntimes' = max 1 (min 5 ntimes)
      in returning
           (block
              [logger INFO (''Nodding yes '' @ str_int ntimes' @ '' times''),
               for_range ntimes'
                 (block
                    [goto_target r (Some (create_head_pose (PyInt 0) (PyInt 15) (PyInt 0))) None
                       (PyFloat 0.15),
                     asyncio_sleep (PyFloat 0.1),
                     goto_target r (Some (create_head_pose (PyInt 0) (PyInt (- 10)) (PyInt 0))) None
                       (PyFloat 0.15),
                     asyncio_sleep (PyFloat 0.1)]),
               goto_target r (Some (create_head_pose (PyInt 0) (PyInt 0) (PyInt 0))) None
                 (PyFloat 0.2)])
           (''Nodded yes '' @ str_int ntimes' @ '' times''))"

definition shake_no :: "robot \<Rightarrow> int \<Rightarrow> string io" where
  "shake_no r ntimes =
     (let ntimes' = max 1 (min 5 ntimes)
      in returning
           (block
              [logger INFO (''Shaking no '' @ str_int ntimes' @ '' times''),
               for_range ntimes'
                 (block
                    [goto_target r (Some (create_head_pose (PyInt 0) (PyInt 0) (PyInt 20))) None
                       (PyFloat 0.15),
                     asyncio_sleep (PyFloat 0.05),
                     goto_target r (Some (create_head_pose (PyInt 0) (PyInt 0) (PyInt (- 20)))) None
                       (PyFloat 0.15),
                     asyncio_sleep (PyFloat 0.05)]),
               goto_target r (Some (create_head_pose (PyInt 0) (PyInt 0) (PyInt 0))) None
                 (PyFloat 0.2)])
           (''Shook head no '' @ str_int ntimes' @ '' times''))"

text \<open>\<^verbatim>\<open>tilt_head(direction, angle=20)\<close>; \<^verbatim>\<open>-angle\<close> keeps the kind of number.\<close>

fun py_neg :: "pynum \<Rightarrow> pynum" where
  "py_neg (PyInt i) = PyInt (- i)"
| "py_neg (PyFloat x) = PyFloat (- x)"

definition tilt_head :: "robot \<Rightarrow> (real \<Rightarrow> string) \<Rightarrow> string \<Rightarrow> pynum \<Rightarrow> string io" where
  "tilt_head r float_str direction angle =
     (let angle' = clamp (PyInt 5) (PyInt 30) angle;
          roll = (if direction = ''left'' then angle' else py_neg angle');
          pose = create_head_pose roll (PyInt 0) (PyInt 0)
      in returning
           (block
              [logger INFO (''Tilting head '' @ direction @ '' by '' @ py_str float_str angle'
                            @ '' degrees''),
               goto_target r (Some pose) None (PyFloat 0.4)])
           (''Tilted head '' @ direction))"

definition look_at_camera :: "robot \<Rightarrow> string io" where
  "look_at_camera r =
     returning
       (goto_target r (Some (create_head_pose (PyInt 0) (PyInt 0) (PyInt 0)))
          (Some [PyInt 0, PyInt 0]) (PyFloat 0.3))
       ''Looking at camera''"

text \<open>\<^verbatim>\<open>wake_up()\<close> and \<^verbatim>\<open>go_to_sleep()\<close> call the robot inside their own \<^verbatim>\<open>try\<close>.\<close>

definition wake_up :: "robot \<Rightarrow> string io" where
  "wake_up r =
     io_bind (logger INFO ''Performing wake up animation'')
       (\<lambda>_. try_except
               (returning (to_thread r WakeUp) ''Woke up and ready!'')
               (\<lambda>e. returning (logger ERROR (''Wake up error: '' @ e))
                       (''Wake up failed: '' @ e)))"

definition go_to_sleep :: "robot \<Rightarrow> string io" where
  "go_to_sleep r =
     io_bind (logger INFO ''Going to sleep'')
       (\<lambda>_. try_except
               (returning (to_thread r GotoSleep) ''Going to sleep...'')
               (\<lambda>e. returning (logger ERROR (''Sleep error: '' @ e))
                       (''Sleep failed: '' @ e)))"

subsection \<open>The emotion choreographies\<close>

text \<open>\<^verbatim>\<open>_happy_expression\<close> to \<^verbatim>\<open>_love_expression\<close> (leading underscores dropped).\<close>

definition happy_expression :: "robot \<Rightarrow> unit io" where
  "happy_expression r =
     block
       [goto_target r (Some (create_head_pose (PyInt 15) (PyInt 0) (PyInt 0)))
          (Some [PyFloat 0.5, PyFloat (- 0.5)]) (PyFloat 0.2),
        asyncio_sleep (PyFloat 0.15),
        goto_target r (Some (create_head_pose (PyInt (- 15)) (PyInt 0) (PyInt 0)))
          (Some [PyFloat (- 0.5), PyFloat 0.5]) (PyFloat 0.2),
        asyncio_sleep (PyFloat 0.15),
        goto_target r (Some (create_head_pose (PyInt 0) (PyInt 0) (PyInt 0)))
          (Some [PyFloat 0.3, PyFloat (- 0.3)]) (PyFloat 0.2)]"

definition sad_expression :: "robot \<Rightarrow> unit io" where
  "sad_expression r =
     block
       [goto_target r (Some (create_head_pose (PyInt 0) (PyInt 25) (PyInt 0)))
          (Some [PyFloat (- 1.2), PyFloat 1.2]) (PyFloat 0.8),
        asyncio_sleep (PyFloat 0.8),
        goto_target r (Some (create_head_pose (PyInt 0) (PyInt 5) (PyInt 0)))
          (Some [PyFloat (- 0.3), PyFloat 0.3]) (PyFloat 0.5)]"

definition surprised_expression :: "robot \<Rightarrow> unit io" where
  "surprised_expression r =
     block
       [goto_target r (Some (create_head_pose (PyInt 0) (PyInt (- 20)) (PyInt 0)))
          (Some [PyFloat 1.0, PyFloat (- 1.0)]) (PyFloat 0.12),
        asyncio_sleep (PyFloat 0.4),
        goto_target r (Some (create_head_pose (PyInt 0) (PyInt 0) (PyInt 0)))
          (Some [PyFloat 0.3, PyFloat (- 0.3)]) (PyFloat 0.3)]"

definition curious_expression :: "robot \<Rightarrow> unit io" where
  "curious_expression r =
     block
       [goto_target r (Some (create_head_pose (PyInt 20) (PyInt (- 10)) (PyInt 0)))
          (Some [PyFloat 0.6, PyFloat 0.1]) (PyFloat 0.4),
        asyncio_sleep (PyFloat 0.5),
        goto_target r (Some (create_head_pose (PyInt 0) (PyInt 0) (PyInt 0)))
          (Some [PyInt 0, PyInt 0]) (PyFloat 0.3)]"

definition excited_expression :: "robot \<Rightarrow> unit io" where
  "excited_expression r =
     block
       [for_range 3
          (block
             [goto_target r (Some (create_head_pose (PyInt 0) (PyInt (- 10)) (PyInt 0)))
                (Some [PyFloat 0.8, PyFloat (- 0.8)]) (PyFloat 0.1),
              asyncio_sleep (PyFloat 0.08),
              goto_target r (Some (create_head_pose (PyInt 0) (PyInt 5) (PyInt 0)))
                (Some [PyFloat (- 0.2), PyFloat 0.2]) (PyFloat 0.1),
              asyncio_sleep (PyFloat 0.08)]),
        goto_target r (Some (create_head_pose (PyInt 0) (PyInt 0) (PyInt 0)))
          (Some [PyFloat 0.5, PyFloat (- 0.5)]) (PyFloat 0.2)]"

definition sleepy_expression :: "robot \<Rightarrow> unit io" where
  "sleepy_expression r =
     block
       [goto_target r (Some (create_head_pose (PyInt 8) (PyInt 25) (PyInt 0)))
          (Some [PyFloat (- 1.3), PyFloat 1.3]) (PyFloat 1.2),
        asyncio_sleep (PyFloat 0.5),
        goto_target r (Some (create_head_pose (PyInt 8) (PyInt 30) (PyInt 0))) None (PyFloat 0.3),
        asyncio_sleep (PyFloat 0.3),
        goto_target r (Some (create_head_pose (PyInt 0) (PyInt 15) (PyInt 0)))
          (Some [PyFloat (- 0.8), PyFloat 0.8]) (PyFloat 0.4)]"

definition confused_expression :: "robot \<Rightarrow> unit io" where
  "confused_expression r =
     block
       [goto_target r (Some (create_head_pose (PyInt 15) (PyInt (- 5)) (PyInt 0)))
          (Some [PyFloat 0.4, PyFloat 0.6]) (PyFloat 0.3),
        asyncio_sleep (PyFloat 0.3),
        goto_target r (Some (create_head_pose (PyInt (- 15)) (PyInt (- 5)) (PyInt 0)))
          (Some [PyFloat 0.6, PyFloat 0.4]) (PyFloat 0.3),
        asyncio_sleep (PyFloat 0.3),
        goto_target r (Some (create_head_pose (PyInt 8) (PyInt 0) (PyInt 0)))
          (Some [PyFloat 0.2, PyFloat 0.4]) (PyFloat 0.25)]"

definition angry_expression :: "robot \<Rightarrow> unit io" where
  "angry_expression r =
     block
       [goto_target r (Some (create_head_pose (PyInt 0) (PyInt 10) (PyInt 0)))
          (Some [PyFloat 0.8, PyFloat (- 0.8)]) (PyFloat 0.2),
        asyncio_sleep (PyFloat 0.2),
        goto_target r (Some (create_head_pose (PyInt 0) (PyInt 10) (PyInt 10))) None (PyFloat 0.1),
        asyncio_sleep (PyFloat 0.1),
        goto_target r (Some (create_head_pose (PyInt 0) (PyInt 10) (PyInt (- 10)))) None
          (PyFloat 0.1),
        asyncio_sleep (PyFloat 0.1),
        goto_target r (Some (create_head_pose (PyInt 0) (PyInt 5) (PyInt 0)))
          (Some [PyFloat 0.5, PyFloat (- 0.5)]) (PyFloat 0.2)]"

definition love_expression :: "robot \<Rightarrow> unit io" where
  "love_expression r =
     block
       [goto_target r (Some (create_head_pose (PyInt 12) (PyInt (- 8)) (PyInt 0)))
          (Some [PyFloat 0.4, PyFloat (- 0.4)]) (PyFloat 0.5),
        asyncio_sleep (PyFloat 0.4),
        goto_target r (Some (create_head_pose (PyInt (- 12)) (PyInt (- 8)) (PyInt 0)))
          (Some [PyFloat (- 0.4), PyFloat 0.4]) (PyFloat 0.5),
        asyncio_sleep (PyFloat 0.4),
        goto_target r (Some (create_head_pose (PyInt 0) (PyInt 0) (PyInt 0)))
          (Some [PyFloat 0.2, PyFloat (- 0.2)]) (PyFloat 0.3)]"

text \<open>\<^verbatim>\<open>express_emotion(emotion)\<close>, with its table of methods.\<close>

definition emotion_methods :: "robot \<Rightarrow> (string \<times> unit io) list" where
  "emotion_methods r =
     [(''happy'', happy_expression r),
      (''sad'', sad_expression r),
      (''surprised'', surprised_expression r),
      (''curious'', curious_expression r),
      (''excited'', excited_expression r),
      (''sleepy'', sleepy_expression r),
      (''confused'', confused_expression r),
      (''angry'', angry_expression r),
      (''love'', love_expression r)]"

definition express_emotion :: "robot \<Rightarrow> string \<Rightarrow> string io" where
  "express_emotion r emotion =
     io_bind (logger INFO (''Expressing emotion: '' @ emotion))
       (\<lambda>_. case map_of (emotion_methods r) emotion of
               Some method \<Rightarrow> returning method (''Expressed '' @ emotion)
             | None \<Rightarrow>
                 returning (logger WARNING (''Unknown emotion: '' @ emotion))
                   (''Unknown emotion: '' @ emotion))"

text \<open>\<^verbatim>\<open>do_dance(style="default")\<close> and \<^verbatim>\<open>reset_position()\<close>.\<close>

definition do_dance :: "robot \<Rightarrow> string \<Rightarrow> string io" where
  "do_dance r style =
     returning
       (block
          [logger INFO (''Dancing: '' @ style),
           (if style = ''silly''
            then for_range 2
                   (block
                      [goto_target r (Some (create_head_pose (PyInt 25) (PyInt 0) (PyInt 15)))
                         (Some [PyFloat 1.0, PyInt 0]) (PyFloat 0.2),
                       asyncio_sleep (PyFloat 0.15),
                       goto_target r
                         (Some (create_head_pose (PyInt (- 25)) (PyInt 0) (PyInt (- 15))))
                         (Some [PyInt 0, PyFloat (- 1.0)]) (PyFloat 0.2),
                       asyncio_sleep (PyFloat 0.15)])
            else for_range 3
                   (block
                      [goto_target r (Some (create_head_pose (PyInt 15) (PyInt (- 5)) (PyInt 0)))
                         (Some [PyFloat 0.6, PyFloat (- 0.6)]) (PyFloat 0.15),
                       asyncio_sleep (PyFloat 0.1),
                       goto_target r
                         (Some (create_head_pose (PyInt (- 15)) (PyInt (- 5)) (PyInt 0)))
                         (Some [PyFloat (- 0.6), PyFloat 0.6]) (PyFloat 0.15),
                       asyncio_sleep (PyFloat 0.1)])),
           goto_target r (Some (create_head_pose (PyInt 0) (PyInt 0) (PyInt 0)))
             (Some [PyInt 0, PyInt 0]) (PyFloat 0.25)])
       (''Finished '' @ style @ '' dance'')"

definition reset_position :: "robot \<Rightarrow> string io" where
  "reset_position r =
     returning
       (goto_target r (Some (create_head_pose (PyInt 0) (PyInt 0) (PyInt 0)))
          (Some [PyInt 0, PyInt 0]) (PyFloat 0.5))
       ''Reset to neutral position''"

section \<open>Observations on a trace\<close>

text \<open>What a coroutine added to the trace it started from.\<close>

definition emitted :: "'a io \<Rightarrow> event list \<Rightarrow> event list" where
  "emitted m w = drop (length w) (snd (m w))"

fun is_log :: "event \<Rightarrow> bool" where
  "is_log (Log l msg) = True"
| "is_log e = False"

text \<open>The trace without the log lines: robot calls and sleeps, in order.\<close>

definition timeline :: "event list \<Rightarrow> event list" where
  "timeline es = filter (\<lambda>e. \<not> is_log e) es"

fun device_calls :: "event list \<Rightarrow> command list" where
  "device_calls [] = []"
| "device_calls (Device c # es) = c # device_calls es"
| "device_calls (e # es) = device_calls es"

text \<open>
  From every trace the coroutine returns \<open>x\<close>, raising nothing, and what it adds to the
  trace has the timeline \<open>tline\<close>.
\<close>

definition emits :: "'a io \<Rightarrow> 'a \<Rightarrow> event list \<Rightarrow> bool" where
  "emits m x tline = (\<forall>w. \<exists>es. m w = (Returned x, w @ es) \<and> timeline es = tline)"

text \<open>
  A pose or an antenna pair has passed the safety clamp when clamping it (again) leaves its
  value as it is.
\<close>

definition safe_head :: "head_pose \<Rightarrow> bool" where
  "safe_head p =
     (val (clamp_roll (pose_roll p)) = val (pose_roll p)
      \<and> val (clamp_pitch (pose_pitch p)) = val (pose_pitch p)
      \<and> val (clamp_yaw (pose_yaw p)) = val (pose_yaw p))"

definition safe_antennas :: "pynum list \<Rightarrow> bool" where
  "safe_antennas xs = list_all (\<lambda>a. val (clamp_rad a) = val a) xs"

fun safe_command :: "command \<Rightarrow> bool" where
  "safe_command (GotoTarget head antennas duration) =
     ((case head of None \<Rightarrow> True | Some p \<Rightarrow> safe_head p)
      \<and> (case antennas of None \<Rightarrow> True | Some xs \<Rightarrow> safe_antennas xs))"
| "safe_command WakeUp = True"
| "safe_command GotoSleep = True"

text \<open>
  A timeline in which every robot call but the last is followed by exactly one sleep, and
  nothing else happens: call, sleep, call, sleep, ..., call.
\<close>

fun well_sequenced :: "event list \<Rightarrow> bool" where
  "well_sequenced [Device c] = True"
| "well_sequenced (Device c # Sleep d # es) = well_sequenced es"
| "well_sequenced es = False"

text \<open>A facade operation ended by returning a non-empty string.\<close>

fun descriptive :: "string outcome \<Rightarrow> bool" where
  "descriptive (Returned s) = (s \<noteq> [])"
| "descriptive (Raised e) = False"

text \<open>Two robots to run the controller on: one never fails, one fails its second call.\<close>

definition reliable_robot :: robot where
  "reliable_robot w c = None"

definition fails_second_call :: robot where
  "fails_second_call w c =
     (if length (device_calls w) = 1 then Some ''actuator fault'' else None)"

section \<open>The safety clamp\<close>

lemma val_clamp: "val (clamp lo hi v) = max (val lo) (min (val hi) (val v))"
  by (simp add: clamp_def py_max_def py_min_def max_def min_def)


text \<open>\<open>1.57\<close> is less than a right angle: \<open>cos 1.57\<close> is positive.\<close>

lemma cos_157_pos: "0 < cos (157 / 100 :: real)"
proof -
  obtain t where t: "cos (157 / 100 :: real) =
      (\<Sum>m<12. cos_coeff m * (157 / 100) ^ m)
      + (cos (t + 1 / 2 * real (12::nat) * pi) / fact 12) * (157 / 100) ^ 12"
    using Maclaurin_cos_expansion2 [of "157 / 100" 12] by auto
  have "- 1 \<le> cos (t + 1 / 2 * real (12::nat) * pi)" by simp
  then have "- ((157 / 100) ^ 12 / fact 12)
      \<le> (cos (t + 1 / 2 * real (12::nat) * pi) / fact 12) * (157 / 100 :: real) ^ 12"
    by (simp add: field_simps)
  moreover have "0 < (\<Sum>m<12. cos_coeff m * (157 / 100 :: real) ^ m) - ((157 / 100) ^ 12 / fact 12)"
    by (simp add: cos_coeff_def lessThan_nat_numeral lessThan_Suc fact_numeral power_divide)
  ultimately show ?thesis using t by linarith
qed

lemma right_angle_gt_157: "157 / 100 < pi / 2"
proof (rule ccontr)
  assume "\<not> 157 / 100 < pi / 2"
  then have le: "pi / 2 \<le> 157 / 100" by simp
  have "157 / 100 \<le> pi" using pi_ge_two by linarith
  have "cos (157 / 100) \<le> cos (pi / 2)"
    using le \<open>157 / 100 \<le> pi\<close> by (intro cos_monotone_0_pi_le) auto
  then show False using cos_157_pos by simp
qed



section \<open>Reasoning about coroutines\<close>

lemma timeline_append: "timeline (xs @ ys) = timeline xs @ timeline ys"
  by (simp add: timeline_def)

lemma device_calls_append: "device_calls (xs @ ys) = device_calls xs @ device_calls ys"
  by (induction xs rule: device_calls.induct) simp_all

lemma device_calls_timeline: "device_calls (timeline es) = device_calls es"
  by (induction es rule: device_calls.induct) (simp_all add: timeline_def)

lemma device_calls_concat_replicate:
  "device_calls (concat (replicate n xs)) = concat (replicate n (device_calls xs))"
  by (induction n) (simp_all add: device_calls_append)

lemma length_concat_replicate: "length (concat (replicate n xs)) = n * length xs"
  by (induction n) simp_all

lemma list_all_concat_replicate: "list_all P xs \<Longrightarrow> list_all P (concat (replicate n xs))"
  by (induction n) simp_all

lemma emits_return: "emits (io_return x) x []"
  by (simp add: emits_def io_return_def timeline_def)

lemma emits_logger: "emits (logger l s) () []"
  by (simp add: emits_def logger_def timeline_def)

lemma emits_sleep: "emits (asyncio_sleep d) () [Sleep d]"
  by (simp add: emits_def asyncio_sleep_def timeline_def)

lemma goto_target_run:
  "goto_target r h a d w =
     (Returned (),
      w @ Device (GotoTarget h a d)
          # (case r w (GotoTarget h a d) of
               None \<Rightarrow> []
             | Some e \<Rightarrow> [Log ERROR (''Motion error: '' @ e)]))"
  by (simp add: goto_target_def try_except_def to_thread_def logger_def split: option.split)

lemma emits_goto_target: "emits (goto_target r h a d) () [Device (GotoTarget h a d)]"
  by (simp add: emits_def goto_target_run timeline_def split: option.split)

lemma emits_bind:
  assumes "emits m x t1" and "emits (f x) y t2"
  shows "emits (io_bind m f) y (t1 @ t2)"
  unfolding emits_def
proof
  fix w
  from assms(1) obtain es1 where 1: "m w = (Returned x, w @ es1)" "timeline es1 = t1"
    unfolding emits_def by blast
  from assms(2) obtain es2
    where 2: "f x (w @ es1) = (Returned y, (w @ es1) @ es2)" "timeline es2 = t2"
    unfolding emits_def by blast
  have "io_bind m f w = (Returned y, w @ (es1 @ es2))"
    using 1 2 by (simp add: io_bind_def)
  moreover have "timeline (es1 @ es2) = t1 @ t2"
    using 1 2 by (simp add: timeline_append)
  ultimately show "\<exists>es. io_bind m f w = (Returned y, w @ es) \<and> timeline es = t1 @ t2"
    by blast
qed

lemma emits_block_Nil: "emits (block []) () []"
  by (simp add: emits_return)

lemma emits_block_Cons:
  "emits s () t1 \<Longrightarrow> emits (block ss) () t2 \<Longrightarrow> emits (block (s # ss)) () (t1 @ t2)"
  by (simp add: emits_bind)

lemma emits_replicate:
  "emits body () t \<Longrightarrow> emits (block (replicate n body)) () (concat (replicate n t))"
  by (induction n) (simp_all add: emits_return emits_bind)

lemma emits_for_range:
  "emits body () t \<Longrightarrow> emits (for_range n body) () (concat (replicate (nat n) t))"
  by (simp add: for_range_def emits_replicate)

lemma emits_returning: "emits m () t \<Longrightarrow> emits (returning m x) x t"
  using emits_bind [of m "()" t "\<lambda>_. io_return x" x "[]"]
  by (simp add: returning_def emits_return)

lemma emits_eq: "emits m x t' \<Longrightarrow> t' = t \<Longrightarrow> emits m x t"
  by simp

lemmas emits_intros =
  emits_return emits_logger emits_sleep emits_goto_target
  emits_block_Nil emits_block_Cons emits_for_range emits_returning emits_bind

text \<open>What \<open>emits\<close> says about one run.\<close>

lemma emits_run:
  assumes "emits m x t"
  shows "fst (m w) = Returned x" and "timeline (emitted m w) = t"
    and "device_calls (emitted m w) = device_calls t"
proof -
  from assms obtain es where es: "m w = (Returned x, w @ es)" "timeline es = t"
    unfolding emits_def by blast
  show "fst (m w) = Returned x" using es by simp
  show "timeline (emitted m w) = t" using es by (simp add: emitted_def)
  have "device_calls (emitted m w) = device_calls (timeline es)"
    using es(1) by (simp add: emitted_def device_calls_timeline)
  then show "device_calls (emitted m w) = device_calls t" using es(2) by simp
qed

section \<open>Timelines of the choreographies\<close>

lemma happy_emits:
  "emits (happy_expression r) ()
     [Device (GotoTarget (Some (create_head_pose (PyInt 15) (PyInt 0) (PyInt 0)))
        (Some [PyFloat 0.5, PyFloat (- 0.5)]) (PyFloat 0.2)),
      Sleep (PyFloat 0.15),
      Device (GotoTarget (Some (create_head_pose (PyInt (- 15)) (PyInt 0) (PyInt 0)))
        (Some [PyFloat (- 0.5), PyFloat 0.5]) (PyFloat 0.2)),
      Sleep (PyFloat 0.15),
      Device (GotoTarget (Some (create_head_pose (PyInt 0) (PyInt 0) (PyInt 0)))
        (Some [PyFloat 0.3, PyFloat (- 0.3)]) (PyFloat 0.2))]"
  unfolding happy_expression_def
  by (rule emits_eq, (rule emits_intros)+, simp)

lemma sad_emits:
  "emits (sad_expression r) ()
     [Device (GotoTarget (Some (create_head_pose (PyInt 0) (PyInt 25) (PyInt 0)))
        (Some [PyFloat (- 1.2), PyFloat 1.2]) (PyFloat 0.8)),
      Sleep (PyFloat 0.8),
      Device (GotoTarget (Some (create_head_pose (PyInt 0) (PyInt 5) (PyInt 0)))
        (Some [PyFloat (- 0.3), PyFloat 0.3]) (PyFloat 0.5))]"
  unfolding sad_expression_def
  by (rule emits_eq, (rule emits_intros)+, simp)

lemma surprised_emits:
  "emits (surprised_expression r) ()
     [Device (GotoTarget (Some (create_head_pose (PyInt 0) (PyInt (- 20)) (PyInt 0)))
        (Some [PyFloat 1.0, PyFloat (- 1.0)]) (PyFloat 0.12)),
      Sleep (PyFloat 0.4),
      Device (GotoTarget (Some (create_head_pose (PyInt 0) (PyInt 0) (PyInt 0)))
        (Some [PyFloat 0.3, PyFloat (- 0.3)]) (PyFloat 0.3))]"
  unfolding surprised_expression_def
  by (rule emits_eq, (rule emits_intros)+, simp)

lemma curious_emits:
  "emits (curious_expression r) ()
     [Device (GotoTarget (Some (create_head_pose (PyInt 20) (PyInt (- 10)) (PyInt 0)))
        (Some [PyFloat 0.6, PyFloat 0.1]) (PyFloat 0.4)),
      Sleep (PyFloat 0.5),
      Device (GotoTarget (Some (create_head_pose (PyInt 0) (PyInt 0) (PyInt 0)))
        (Some [PyInt 0, PyInt 0]) (PyFloat 0.3))]"
  unfolding curious_expression_def
  by (rule emits_eq, (rule emits_intros)+, simp)

lemma excited_emits:
  "emits (excited_expression r) ()
     (concat (replicate 3
        [Device (GotoTarget (Some (create_head_pose (PyInt 0) (PyInt (- 10)) (PyInt 0)))
           (Some [PyFloat 0.8, PyFloat (- 0.8)]) (PyFloat 0.1)),
         Sleep (PyFloat 0.08),
         Device (GotoTarget (Some (create_head_pose (PyInt 0) (PyInt 5) (PyInt 0)))
           (Some [PyFloat (- 0.2), PyFloat 0.2]) (PyFloat 0.1)),
         Sleep (PyFloat 0.08)])
      @ [Device (GotoTarget (Some (create_head_pose (PyInt 0) (PyInt 0) (PyInt 0)))
           (Some [PyFloat 0.5, PyFloat (- 0.5)]) (PyFloat 0.2))])"
  unfolding excited_expression_def
  by (rule emits_eq, (rule emits_intros)+, simp)

lemma sleepy_emits:
  "emits (sleepy_expression r) ()
     [Device (GotoTarget (Some (create_head_pose (PyInt 8) (PyInt 25) (PyInt 0)))
        (Some [PyFloat (- 1.3), PyFloat 1.3]) (PyFloat 1.2)),
      Sleep (PyFloat 0.5),
      Device (GotoTarget (Some (create_head_pose (PyInt 8) (PyInt 30) (PyInt 0))) None
        (PyFloat 0.3)),
      Sleep (PyFloat 0.3),
      Device (GotoTarget (Some (create_head_pose (PyInt 0) (PyInt 15) (PyInt 0)))
        (Some [PyFloat (- 0.8), PyFloat 0.8]) (PyFloat 0.4))]"
  unfolding sleepy_expression_def
  by (rule emits_eq, (rule emits_intros)+, simp)

lemma confused_emits:
  "emits (confused_expression r) ()
     [Device (GotoTarget (Some (create_head_pose (PyInt 15) (PyInt (- 5)) (PyInt 0)))
        (Some [PyFloat 0.4, PyFloat 0.6]) (PyFloat 0.3)),
      Sleep (PyFloat 0.3),
      Device (GotoTarget (Some (create_head_pose (PyInt (- 15)) (PyInt (- 5)) (PyInt 0)))
        (Some [PyFloat 0.6, PyFloat 0.4]) (PyFloat 0.3)),
      Sleep (PyFloat 0.3),
      Device (GotoTarget (Some (create_head_pose (PyInt 8) (PyInt 0) (PyInt 0)))
        (Some [PyFloat 0.2, PyFloat 0.4]) (PyFloat 0.25))]"
  unfolding confused_expression_def
  by (rule emits_eq, (rule emits_intros)+, simp)

lemma angry_emits:
  "emits (angry_expression r) ()
     [Device (GotoTarget (Some (create_head_pose (PyInt 0) (PyInt 10) (PyInt 0)))
        (Some [PyFloat 0.8, PyFloat (- 0.8)]) (PyFloat 0.2)),
      Sleep (PyFloat 0.2),
      Device (GotoTarget (Some (create_head_pose (PyInt 0) (PyInt 10) (PyInt 10))) None
        (PyFloat 0.1)),
      Sleep (PyFloat 0.1),
      Device (GotoTarget (Some (create_head_pose (PyInt 0) (PyInt 10) (PyInt (- 10)))) None
        (PyFloat 0.1)),
      Sleep (PyFloat 0.1),
      Device (GotoTarget (Some (create_head_pose (PyInt 0) (PyInt 5) (PyInt 0)))
        (Some [PyFloat 0.5, PyFloat (- 0.5)]) (PyFloat 0.2))]"
  unfolding angry_expression_def
  by (rule emits_eq, (rule emits_intros)+, simp)

lemma love_emits:
  "emits (love_expression r) ()
     [Device (GotoTarget (Some (create_head_pose (PyInt 12) (PyInt (- 8)) (PyInt 0)))
        (Some [PyFloat 0.4, PyFloat (- 0.4)]) (PyFloat 0.5)),
      Sleep (PyFloat 0.4),
      Device (GotoTarget (Some (create_head_pose (PyInt (- 12)) (PyInt (- 8)) (PyInt 0)))
        (Some [PyFloat (- 0.4), PyFloat 0.4]) (PyFloat 0.5)),
      Sleep (PyFloat 0.4),
      Device (GotoTarget (Some (create_head_pose (PyInt 0) (PyInt 0) (PyInt 0)))
        (Some [PyFloat 0.2, PyFloat (- 0.2)]) (PyFloat 0.3))]"
  unfolding love_expression_def
  by (rule emits_eq, (rule emits_intros)+, simp)

lemma nod_yes_emits:
  "emits (nod_yes r n) (''Nodded yes '' @ str_int (max 1 (min 5 n)) @ '' times'')
     (concat (replicate (nat (max 1 (min 5 n)))
        [Device (GotoTarget (Some (create_head_pose (PyInt 0) (PyInt 15) (PyInt 0))) None
           (PyFloat 0.15)),
         Sleep (PyFloat 0.1),
         Device (GotoTarget (Some (create_head_pose (PyInt 0) (PyInt (- 10)) (PyInt 0))) None
           (PyFloat 0.15)),
         Sleep (PyFloat 0.1)])
      @ [Device (GotoTarget (Some (create_head_pose (PyInt 0) (PyInt 0) (PyInt 0))) None
           (PyFloat 0.2))])"
  unfolding nod_yes_def Let_def
  by (rule emits_eq, (rule emits_intros)+, simp)

lemma shake_no_emits:
  "emits (shake_no r n) (''Shook head no '' @ str_int (max 1 (min 5 n)) @ '' times'')
     (concat (replicate (nat (max 1 (min 5 n)))
        [Device (GotoTarget (Some (create_head_pose (PyInt 0) (PyInt 0) (PyInt 20))) None
           (PyFloat 0.15)),
         Sleep (PyFloat 0.05),
         Device (GotoTarget (Some (create_head_pose (PyInt 0) (PyInt 0) (PyInt (- 20)))) None
           (PyFloat 0.15)),
         Sleep (PyFloat 0.05)])
      @ [Device (GotoTarget (Some (create_head_pose (PyInt 0) (PyInt 0) (PyInt 0))) None
           (PyFloat 0.2))])"
  unfolding shake_no_def Let_def
  by (rule emits_eq, (rule emits_intros)+, simp)

lemma do_dance_silly_emits:
  "emits (do_dance r ''silly'') (''Finished '' @ ''silly'' @ '' dance'')
     (concat (replicate 2
        [Device (GotoTarget (Some (create_head_pose (PyInt 25) (PyInt 0) (PyInt 15)))
           (Some [PyFloat 1.0, PyInt 0]) (PyFloat 0.2)),
         Sleep (PyFloat 0.15),
         Device (GotoTarget (Some (create_head_pose (PyInt (- 25)) (PyInt 0) (PyInt (- 15))))
           (Some [PyInt 0, PyFloat (- 1.0)]) (PyFloat 0.2)),
         Sleep (PyFloat 0.15)])
      @ [Device (GotoTarget (Some (create_head_pose (PyInt 0) (PyInt 0) (PyInt 0)))
           (Some [PyInt 0, PyInt 0]) (PyFloat 0.25))])"
  unfolding do_dance_def if_P [OF refl]
  by (rule emits_eq, (rule emits_intros)+, simp)

lemma do_dance_other_emits:
  assumes "style \<noteq> ''silly''"
  shows "emits (do_dance r style) (''Finished '' @ style @ '' dance'')
     (concat (replicate 3
        [Device (GotoTarget (Some (create_head_pose (PyInt 15) (PyInt (- 5)) (PyInt 0)))
           (Some [PyFloat 0.6, PyFloat (- 0.6)]) (PyFloat 0.15)),
         Sleep (PyFloat 0.1),
         Device (GotoTarget (Some (create_head_pose (PyInt (- 15)) (PyInt (- 5)) (PyInt 0)))
           (Some [PyFloat (- 0.6), PyFloat 0.6]) (PyFloat 0.15)),
         Sleep (PyFloat 0.1)])
      @ [Device (GotoTarget (Some (create_head_pose (PyInt 0) (PyInt 0) (PyInt 0)))
           (Some [PyInt 0, PyInt 0]) (PyFloat 0.25))])"
  unfolding do_dance_def if_not_P [OF assms]
  by (rule emits_eq, (rule emits_intros)+, simp)

section \<open>The single-step operations\<close>

lemma move_head_known_emits:
  assumes "map_of poses direction = Some (rl, pt, yw)"
  shows "emits (move_head r direction duration) (''Moved head '' @ direction)
           [Device (GotoTarget (Some (create_head_pose rl pt yw)) None duration)]"
  unfolding move_head_def Let_def
  apply (simp add: assms)
  apply (rule emits_eq, (rule emits_intros)+, simp)
  done

lemma move_head_unknown_emits:
  assumes "map_of poses direction = None"
  shows "emits (move_head r direction duration) (''Moved head '' @ ''center'')
           [Device (GotoTarget (Some (create_head_pose (PyInt 0) (PyInt 0) (PyInt 0))) None duration)]"
  unfolding move_head_def Let_def
  apply (simp add: assms)
  apply (simp add: poses_def)
  apply (rule emits_eq, (rule emits_intros)+, simp)
  done

lemma move_head_precise_emits:
  "emits (move_head_precise r fs roll pitch yaw duration)
     (''Moved head to '' @ (''roll='' @ py_str fs (clamp_roll roll) @ '', pitch='' @ py_str fs (clamp_pitch pitch)
                   @ '', yaw='' @ py_str fs (clamp_yaw yaw)))
     [Device (GotoTarget (Some (create_head_pose (clamp_roll roll) (clamp_pitch pitch) (clamp_yaw yaw))) None duration)]"
  unfolding move_head_precise_def Let_def
  by (rule emits_eq, (rule emits_intros)+, simp)

lemma emits_io_of: "emits (io_of (Returned x)) x []"
  by (simp add: emits_def io_of_def timeline_def)

lemma np_radians_Returned: "np_radians x = Returned y \<Longrightarrow> y = PyFloat (val x * pi / 180)"
  by (cases x) (auto simp: np_radians_def split: if_splits)

lemma np_radians_float: "np_radians (PyFloat y) = Returned (PyFloat (y * pi / 180))"
  by (simp add: np_radians_def)

lemma np_radians_int:
  "- (2 ^ 63) \<le> i \<Longrightarrow> i < 2 ^ 64 \<Longrightarrow>
   np_radians (PyInt i) = Returned (PyFloat (real_of_int i * pi / 180))"
  by (simp add: np_radians_def)

lemma move_antennas_emits:
  assumes "np_radians right_angle = Returned right_converted"
    and "np_radians left_angle = Returned left_converted"
  shows "emits (move_antennas r fs right_angle left_angle duration)
     (''Moved antennas to right='' @ py_str fs right_angle
            @ '', left='' @ py_str fs left_angle @ '' degrees'')
     [Device (GotoTarget None (Some [clamp_rad right_converted, clamp_rad left_converted])
                duration)]"
  unfolding move_antennas_def Let_def assms
  by (rule emits_eq, (rule emits_intros emits_io_of)+, simp)

lemma move_antennas_raises_right:
  assumes "np_radians right_angle = Raised e"
  shows "move_antennas r fs right_angle left_angle duration w = (Raised e, w)"
  by (simp add: move_antennas_def io_bind_def io_of_def assms)

lemma move_antennas_raises_left:
  assumes "np_radians right_angle = Returned right_converted"
    and "np_radians left_angle = Raised e"
  shows "move_antennas r fs right_angle left_angle duration w = (Raised e, w)"
  by (simp add: move_antennas_def io_bind_def io_of_def assms)

lemma antenna_expression_known_emits:
  assumes "map_of expressions expression = Some antennas"
  shows "emits (antenna_expression r expression) (''Set antennas to '' @ expression)
           [Device (GotoTarget None (Some antennas) (PyFloat 0.3))]"
  unfolding antenna_expression_def Let_def
  apply (simp add: assms)
  apply (rule emits_eq, (rule emits_intros)+, simp)
  done

lemma antenna_expression_unknown_emits:
  assumes "map_of expressions expression = None"
  shows "emits (antenna_expression r expression) (''Set antennas to '' @ ''neutral'')
           [Device (GotoTarget None (Some [PyInt 0, PyInt 0]) (PyFloat 0.3))]"
  unfolding antenna_expression_def Let_def
  apply (simp add: assms)
  apply (simp add: expressions_def)
  apply (rule emits_eq, (rule emits_intros)+, simp)
  done

lemma tilt_head_emits:
  "emits (tilt_head r fs direction angle) (''Tilted head '' @ direction)
     [Device (GotoTarget
        (Some (create_head_pose
                 (if direction = ''left'' then clamp (PyInt 5) (PyInt 30) angle
                  else py_neg (clamp (PyInt 5) (PyInt 30) angle)) (PyInt 0) (PyInt 0)))
        None (PyFloat 0.4))]"
  unfolding tilt_head_def Let_def
  by (rule emits_eq, (rule emits_intros)+, simp)

lemma look_at_camera_emits:
  "emits (look_at_camera r) ''Looking at camera''
     [Device (GotoTarget (Some (create_head_pose (PyInt 0) (PyInt 0) (PyInt 0)))
        (Some [PyInt 0, PyInt 0]) (PyFloat 0.3))]"
  unfolding look_at_camera_def
  by (rule emits_eq, (rule emits_intros)+, simp)

lemma reset_position_emits:
  "emits (reset_position r) ''Reset to neutral position''
     [Device (GotoTarget (Some (create_head_pose (PyInt 0) (PyInt 0) (PyInt 0)))
        (Some [PyInt 0, PyInt 0]) (PyFloat 0.5))]"
  unfolding reset_position_def
  by (rule emits_eq, (rule emits_intros)+, simp)

lemma wake_up_run:
  "wake_up r w =
     (case r (w @ [Log INFO ''Performing wake up animation'']) WakeUp of
        None \<Rightarrow> (Returned ''Woke up and ready!'',
                 w @ [Log INFO ''Performing wake up animation'', Device WakeUp])
      | Some e \<Rightarrow> (Returned (''Wake up failed: '' @ e),
                   w @ [Log INFO ''Performing wake up animation'', Device WakeUp,
                        Log ERROR (''Wake up error: '' @ e)]))"
  by (simp add: wake_up_def io_bind_def logger_def try_except_def returning_def to_thread_def
      io_return_def split: option.split)

lemma go_to_sleep_run:
  "go_to_sleep r w =
     (case r (w @ [Log INFO ''Going to sleep'']) GotoSleep of
        None \<Rightarrow> (Returned ''Going to sleep...'',
                 w @ [Log INFO ''Going to sleep'', Device GotoSleep])
      | Some e \<Rightarrow> (Returned (''Sleep failed: '' @ e),
                   w @ [Log INFO ''Going to sleep'', Device GotoSleep,
                        Log ERROR (''Sleep error: '' @ e)]))"
  by (simp add: go_to_sleep_def io_bind_def logger_def try_except_def returning_def to_thread_def
      io_return_def split: option.split)

lemma express_emotion_known_emits:
  assumes "map_of (emotion_methods r) emotion = Some m" and "emits m () t"
  shows "emits (express_emotion r emotion) (''Expressed '' @ emotion) t"
  unfolding express_emotion_def
  apply (simp add: assms(1))
  apply (rule emits_eq, rule emits_bind, rule emits_logger, rule emits_returning, rule assms(2), simp)
  done

lemma express_emotion_unknown_run:
  assumes "map_of (emotion_methods r) emotion = None"
  shows "express_emotion r emotion w =
           (Returned (''Unknown emotion: '' @ emotion),
            w @ [Log INFO (''Expressing emotion: '' @ emotion),
                 Log WARNING (''Unknown emotion: '' @ emotion)])"
  by (simp add: express_emotion_def assms io_bind_def logger_def returning_def io_return_def)

section \<open>Order of the steps of a choreography\<close>

lemma well_sequenced_repeat:
  "well_sequenced (concat (replicate k [Device a, Sleep b, Device c, Sleep d]) @ [Device e])"
  by (induction k) simp_all

lemmas choreography_timelines =
  emits_run(2) [OF nod_yes_emits] emits_run(2) [OF shake_no_emits]
  emits_run(2) [OF happy_emits] emits_run(2) [OF sad_emits] emits_run(2) [OF surprised_emits]
  emits_run(2) [OF curious_emits] emits_run(2) [OF excited_emits] emits_run(2) [OF sleepy_emits]
  emits_run(2) [OF confused_emits] emits_run(2) [OF angry_emits] emits_run(2) [OF love_emits]
  emits_run(2) [OF do_dance_silly_emits] emits_run(2) [OF do_dance_other_emits]

lemmas choreography_calls =
  emits_run(3) [OF nod_yes_emits] emits_run(3) [OF shake_no_emits]
  emits_run(3) [OF happy_emits] emits_run(3) [OF sad_emits] emits_run(3) [OF surprised_emits]
  emits_run(3) [OF curious_emits] emits_run(3) [OF excited_emits] emits_run(3) [OF sleepy_emits]
  emits_run(3) [OF confused_emits] emits_run(3) [OF angry_emits] emits_run(3) [OF love_emits]
  emits_run(3) [OF do_dance_silly_emits] emits_run(3) [OF do_dance_other_emits]

lemma do_dance_well_sequenced:
  "well_sequenced (timeline (emitted (do_dance r style) w))"
  by (cases "style = ''silly''")
     (simp_all add: emits_run(2) [OF do_dance_silly_emits] emits_run(2) [OF do_dance_other_emits]
        well_sequenced_repeat)

text \<open>
  C3. Each choreography (nod, shake, the nine emotion expressions, the dances), run on any
  robot from any trace, issues exactly the robot calls of its steps, in the order of the
  source; between two consecutive calls lies exactly the sleep that follows the earlier step,
  so a call is issued only after the previous call has come back and its pause has passed.
  The number of calls is the number of steps: \<open>2 * times + 1\<close> for nod and shake (with the
  clamped \<open>times\<close>), 3, 2, 2, 2, 7, 3, 3, 4, 3 for the emotions, 5 and 7 for the dances.
\<close>

theorem choreography_steps_in_order:
  "timeline (emitted (nod_yes r n) w) =
     (concat (replicate (nat (max 1 (min 5 n)))
        [Device (GotoTarget (Some (create_head_pose (PyInt 0) (PyInt 15) (PyInt 0))) None
           (PyFloat 0.15)),
         Sleep (PyFloat 0.1),
         Device (GotoTarget (Some (create_head_pose (PyInt 0) (PyInt (- 10)) (PyInt 0))) None
           (PyFloat 0.15)),
         Sleep (PyFloat 0.1)])
      @ [Device (GotoTarget (Some (create_head_pose (PyInt 0) (PyInt 0) (PyInt 0))) None
           (PyFloat 0.2))])
   \<and> length (device_calls (emitted (nod_yes r n) w)) = 2 * nat (max 1 (min 5 n)) + 1
   \<and> well_sequenced (timeline (emitted (nod_yes r n) w))
   \<and> timeline (emitted (shake_no r n) w) =
     (concat (replicate (nat (max 1 (min 5 n)))
        [Device (GotoTarget (Some (create_head_pose (PyInt 0) (PyInt 0) (PyInt 20))) None
           (PyFloat 0.15)),
         Sleep (PyFloat 0.05),
         Device (GotoTarget (Some (create_head_pose (PyInt 0) (PyInt 0) (PyInt (- 20)))) None
           (PyFloat 0.15)),
         Sleep (PyFloat 0.05)])
      @ [Device (GotoTarget (Some (create_head_pose (PyInt 0) (PyInt 0) (PyInt 0))) None
           (PyFloat 0.2))])
   \<and> length (device_calls (emitted (shake_no r n) w)) = 2 * nat (max 1 (min 5 n)) + 1
   \<and> well_sequenced (timeline (emitted (shake_no r n) w))
   \<and> timeline (emitted (happy_expression r) w) =
     [Device (GotoTarget (Some (create_head_pose (PyInt 15) (PyInt 0) (PyInt 0)))
        (Some [PyFloat 0.5, PyFloat (- 0.5)]) (PyFloat 0.2)),
      Sleep (PyFloat 0.15),
      Device (GotoTarget (Some (create_head_pose (PyInt (- 15)) (PyInt 0) (PyInt 0)))
        (Some [PyFloat (- 0.5), PyFloat 0.5]) (PyFloat 0.2)),
      Sleep (PyFloat 0.15),
      Device (GotoTarget (Some (create_head_pose (PyInt 0) (PyInt 0) (PyInt 0)))
        (Some [PyFloat 0.3, PyFloat (- 0.3)]) (PyFloat 0.2))]
   \<and> length (device_calls (emitted (happy_expression r) w)) = 3
   \<and> well_sequenced (timeline (emitted (happy_expression r) w))
   \<and> timeline (emitted (sad_expression r) w) =
     [Device (GotoTarget (Some (create_head_pose (PyInt 0) (PyInt 25) (PyInt 0)))
        (Some [PyFloat (- 1.2), PyFloat 1.2]) (PyFloat 0.8)),
      Sleep (PyFloat 0.8),
      Device (GotoTarget (Some (create_head_pose (PyInt 0) (PyInt 5) (PyInt 0)))
        (Some [PyFloat (- 0.3), PyFloat 0.3]) (PyFloat 0.5))]
   \<and> length (device_calls (emitted (sad_expression r) w)) = 2
   \<and> well_sequenced (timeline (emitted (sad_expression r) w))
   \<and> timeline (emitted (surprised_expression r) w) =
     [Device (GotoTarget (Some (create_head_pose (PyInt 0) (PyInt (- 20)) (PyInt 0)))
        (Some [PyFloat 1.0, PyFloat (- 1.0)]) (PyFloat 0.12)),
      Sleep (PyFloat 0.4),
      Device (GotoTarget (Some (create_head_pose (PyInt 0) (PyInt 0) (PyInt 0)))
        (Some [PyFloat 0.3, PyFloat (- 0.3)]) (PyFloat 0.3))]
   \<and> length (device_calls (emitted (surprised_expression r) w)) = 2
   \<and> well_sequenced (timeline (emitted (surprised_expression r) w))
   \<and> timeline (emitted (curious_expression r) w) =
     [Device (GotoTarget (Some (create_head_pose (PyInt 20) (PyInt (- 10)) (PyInt 0)))
        (Some [PyFloat 0.6, PyFloat 0.1]) (PyFloat 0.4)),
      Sleep (PyFloat 0.5),
      Device (GotoTarget (Some (create_head_pose (PyInt 0) (PyInt 0) (PyInt 0)))
        (Some [PyInt 0, PyInt 0]) (PyFloat 0.3))]
   \<and> length (device_calls (emitted (curious_expression r) w)) = 2
   \<and> well_sequenced (timeline (emitted (curious_expression r) w))
   \<and> timeline (emitted (excited_expression r) w) =
     (concat (replicate 3
        [Device (GotoTarget (Some (create_head_pose (PyInt 0) (PyInt (- 10)) (PyInt 0)))
           (Some [PyFloat 0.8, PyFloat (- 0.8)]) (PyFloat 0.1)),
         Sleep (PyFloat 0.08),
         Device (GotoTarget (Some (create_head_pose (PyInt 0) (PyInt 5) (PyInt 0)))
           (Some [PyFloat (- 0.2), PyFloat 0.2]) (PyFloat 0.1)),
         Sleep (PyFloat 0.08)])
      @ [Device (GotoTarget (Some (create_head_pose (PyInt 0) (PyInt 0) (PyInt 0)))
           (Some [PyFloat 0.5, PyFloat (- 0.5)]) (PyFloat 0.2))])
   \<and> length (device_calls (emitted (excited_expression r) w)) = 7
   \<and> well_sequenced (timeline (emitted (excited_expression r) w))
   \<and> timeline (emitted (sleepy_expression r) w) =
     [Device (GotoTarget (Some (create_head_pose (PyInt 8) (PyInt 25) (PyInt 0)))
        (Some [PyFloat (- 1.3), PyFloat 1.3]) (PyFloat 1.2)),
      Sleep (PyFloat 0.5),
      Device (GotoTarget (Some (create_head_pose (PyInt 8) (PyInt 30) (PyInt 0))) None
        (PyFloat 0.3)),
      Sleep (PyFloat 0.3),
      Device (GotoTarget (Some (create_head_pose (PyInt 0) (PyInt 15) (PyInt 0)))
        (Some [PyFloat (- 0.8), PyFloat 0.8]) (PyFloat 0.4))]
   \<and> length (device_calls (emitted (sleepy_expression r) w)) = 3
   \<and> well_sequenced (timeline (emitted (sleepy_expression r) w))
   \<and> timeline (emitted (confused_expression r) w) =
     [Device (GotoTarget (Some (create_head_pose (PyInt 15) (PyInt (- 5)) (PyInt 0)))
        (Some [PyFloat 0.4, PyFloat 0.6]) (PyFloat 0.3)),
      Sleep (PyFloat 0.3),
      Device (GotoTarget (Some (create_head_pose (PyInt (- 15)) (PyInt (- 5)) (PyInt 0)))
        (Some [PyFloat 0.6, PyFloat 0.4]) (PyFloat 0.3)),
      Sleep (PyFloat 0.3),
      Device (GotoTarget (Some (create_head_pose (PyInt 8) (PyInt 0) (PyInt 0)))
        (Some [PyFloat 0.2, PyFloat 0.4]) (PyFloat 0.25))]
   \<and> length (device_calls (emitted (confused_expression r) w)) = 3
   \<and> well_sequenced (timeline (emitted (confused_expression r) w))
   \<and> timeline (emitted (angry_expression r) w) =
     [Device (GotoTarget (Some (create_head_pose (PyInt 0) (PyInt 10) (PyInt 0)))
        (Some [PyFloat 0.8, PyFloat (- 0.8)]) (PyFloat 0.2)),
      Sleep (PyFloat 0.2),
      Device (GotoTarget (Some (create_head_pose (PyInt 0) (PyInt 10) (PyInt 10))) None
        (PyFloat 0.1)),
      Sleep (PyFloat 0.1),
      Device (GotoTarget (Some (create_head_pose (PyInt 0) (PyInt 10) (PyInt (- 10)))) None
        (PyFloat 0.1)),
      Sleep (PyFloat 0.1),
      Device (GotoTarget (Some (create_head_pose (PyInt 0) (PyInt 5) (PyInt 0)))
        (Some [PyFloat 0.5, PyFloat (- 0.5)]) (PyFloat 0.2))]
   \<and> length (device_calls (emitted (angry_expression r) w)) = 4
   \<and> well_sequenced (timeline (emitted (angry_expression r) w))
   \<and> timeline (emitted (love_expression r) w) =
     [Device (GotoTarget (Some (create_head_pose (PyInt 12) (PyInt (- 8)) (PyInt 0)))
        (Some [PyFloat 0.4, PyFloat (- 0.4)]) (PyFloat 0.5)),
      Sleep (PyFloat 0.4),
      Device (GotoTarget (Some (create_head_pose (PyInt (- 12)) (PyInt (- 8)) (PyInt 0)))
        (Some [PyFloat (- 0.4), PyFloat 0.4]) (PyFloat 0.5)),
      Sleep (PyFloat 0.4),
      Device (GotoTarget (Some (create_head_pose (PyInt 0) (PyInt 0) (PyInt 0)))
        (Some [PyFloat 0.2, PyFloat (- 0.2)]) (PyFloat 0.3))]
   \<and> length (device_calls (emitted (love_expression r) w)) = 3
   \<and> well_sequenced (timeline (emitted (love_expression r) w))
   \<and> timeline (emitted (do_dance r style) w) =
     (if style = ''silly''
      then
        (concat (replicate 2
           [Device (GotoTarget (Some (create_head_pose (PyInt 25) (PyInt 0) (PyInt 15)))
              (Some [PyFloat 1.0, PyInt 0]) (PyFloat 0.2)),
            Sleep (PyFloat 0.15),
            Device (GotoTarget (Some (create_head_pose (PyInt (- 25)) (PyInt 0) (PyInt (- 15))))
              (Some [PyInt 0, PyFloat (- 1.0)]) (PyFloat 0.2)),
            Sleep (PyFloat 0.15)])
         @ [Device (GotoTarget (Some (create_head_pose (PyInt 0) (PyInt 0) (PyInt 0)))
              (Some [PyInt 0, PyInt 0]) (PyFloat 0.25))])
      else
        (concat (replicate 3
           [Device (GotoTarget (Some (create_head_pose (PyInt 15) (PyInt (- 5)) (PyInt 0)))
              (Some [PyFloat 0.6, PyFloat (- 0.6)]) (PyFloat 0.15)),
            Sleep (PyFloat 0.1),
            Device (GotoTarget (Some (create_head_pose (PyInt (- 15)) (PyInt (- 5)) (PyInt 0)))
              (Some [PyFloat (- 0.6), PyFloat 0.6]) (PyFloat 0.15)),
            Sleep (PyFloat 0.1)])
         @ [Device (GotoTarget (Some (create_head_pose (PyInt 0) (PyInt 0) (PyInt 0)))
              (Some [PyInt 0, PyInt 0]) (PyFloat 0.25))]))
   \<and> length (device_calls (emitted (do_dance r style) w)) = (if style = ''silly'' then 5 else 7)
   \<and> well_sequenced (timeline (emitted (do_dance r style) w))"
  by (intro conjI)
     (simp_all add: choreography_timelines choreography_calls device_calls_append
        device_calls_concat_replicate length_concat_replicate well_sequenced_repeat
        do_dance_well_sequenced)

section \<open>Values sent to the robot\<close>

lemma val_py_neg: "val (py_neg v) = - val v"
  by (cases v) simp_all

lemmas safe_defs =
  safe_head_def safe_antennas_def create_head_pose_def
  clamp_roll_def clamp_pitch_def clamp_yaw_def clamp_rad_def val_clamp

lemma passes_clamp_iff:
  "val (clamp_roll v) = val v \<longleftrightarrow> - 30 \<le> val v \<and> val v \<le> 30"
  "val (clamp_pitch v) = val v \<longleftrightarrow> - 30 \<le> val v \<and> val v \<le> 30"
  "val (clamp_yaw v) = val v \<longleftrightarrow> - 45 \<le> val v \<and> val v \<le> 45"
  "val (clamp_rad v) = val v \<longleftrightarrow> - 1.57 \<le> val v \<and> val v \<le> 1.57"
  by (auto simp: clamp_roll_def clamp_pitch_def clamp_yaw_def clamp_rad_def val_clamp)















lemma emotion_method_cases:
  assumes "map_of (emotion_methods r) emotion = Some m"
  obtains "m = happy_expression r" | "m = sad_expression r" | "m = surprised_expression r"
    | "m = curious_expression r" | "m = excited_expression r" | "m = sleepy_expression r"
    | "m = confused_expression r" | "m = angry_expression r" | "m = love_expression r"
proof -
  have "(emotion, m) \<in> set (emotion_methods r)" using assms by (rule map_of_SomeD)
  then show ?thesis using that by (auto simp: emotion_methods_def)
qed

lemma emotion_method_emits:
  assumes "map_of (emotion_methods r) emotion = Some m"
  shows "\<exists>t. emits m () t \<and> list_all safe_command (device_calls t)"
  using assms
proof (cases rule: emotion_method_cases)
  case 1
  show ?thesis unfolding 1
    by (rule exI, rule conjI, rule happy_emits) (simp add: safe_defs)
next
  case 2
  show ?thesis unfolding 2
    by (rule exI, rule conjI, rule sad_emits) (simp add: safe_defs)
next
  case 3
  show ?thesis unfolding 3
    by (rule exI, rule conjI, rule surprised_emits) (simp add: safe_defs)
next
  case 4
  show ?thesis unfolding 4
    by (rule exI, rule conjI, rule curious_emits) (simp add: safe_defs)
next
  case 5
  show ?thesis unfolding 5
    by (rule exI, rule conjI, rule excited_emits)
       (simp add: device_calls_append device_calls_concat_replicate list_all_concat_replicate
          safe_defs)
next
  case 6
  show ?thesis unfolding 6
    by (rule exI, rule conjI, rule sleepy_emits) (simp add: safe_defs)
next
  case 7
  show ?thesis unfolding 7
    by (rule exI, rule conjI, rule confused_emits) (simp add: safe_defs)
next
  case 8
  show ?thesis unfolding 8
    by (rule exI, rule conjI, rule angry_emits) (simp add: safe_defs)
next
  case 9
  show ?thesis unfolding 9
    by (rule exI, rule conjI, rule love_emits) (simp add: safe_defs)
qed



section \<open>Failures of the robot\<close>

lemmas choreography_returns =
  emits_run(1) [OF nod_yes_emits] emits_run(1) [OF shake_no_emits]
  emits_run(1) [OF happy_emits] emits_run(1) [OF sad_emits] emits_run(1) [OF surprised_emits]
  emits_run(1) [OF curious_emits] emits_run(1) [OF excited_emits] emits_run(1) [OF sleepy_emits]
  emits_run(1) [OF confused_emits] emits_run(1) [OF angry_emits] emits_run(1) [OF love_emits]

lemma do_dance_returns: "fst (do_dance r style w) = Returned (''Finished '' @ style @ '' dance'')"
  by (cases "style = ''silly''")
     (simp_all add: emits_run(1) [OF do_dance_silly_emits] emits_run(1) [OF do_dance_other_emits])

lemma do_dance_same_calls:
  "device_calls (emitted (do_dance r style) w) = device_calls (emitted (do_dance r' style) w')"
  by (cases "style = ''silly''")
     (simp_all add: emits_run(3) [OF do_dance_silly_emits] emits_run(3) [OF do_dance_other_emits])

text \<open>
  C5. A call to the robot that raises is caught in \<open>goto_target\<close>: the coroutine returns
  normally and one ERROR line with the exception's message follows the call in the trace.
  So every choreography returns normally on every robot, and the robot calls it issues are
  the same, in number and order, as on a robot that never fails: no step after a failed one
  is lost.
\<close>

theorem device_failure_is_absorbed:
  "goto_target r head antennas duration w =
     (Returned (),
      w @ Device (GotoTarget head antennas duration)
          # (case r w (GotoTarget head antennas duration) of
               None \<Rightarrow> []
             | Some e \<Rightarrow> [Log ERROR (''Motion error: '' @ e)]))
   \<and> fst (nod_yes r n w) = Returned (''Nodded yes '' @ str_int (max 1 (min 5 n)) @ '' times'')
   \<and> device_calls (emitted (nod_yes r n) w)
       = device_calls (emitted (nod_yes reliable_robot n) w)
   \<and> fst (shake_no r n w) = Returned (''Shook head no '' @ str_int (max 1 (min 5 n)) @ '' times'')
   \<and> device_calls (emitted (shake_no r n) w)
       = device_calls (emitted (shake_no reliable_robot n) w)
   \<and> fst (do_dance r style w) = Returned (''Finished '' @ style @ '' dance'')
   \<and> device_calls (emitted (do_dance r style) w)
       = device_calls (emitted (do_dance reliable_robot style) w)
   \<and> fst (happy_expression r w) = Returned ()
   \<and> device_calls (emitted (happy_expression r) w)
       = device_calls (emitted (happy_expression reliable_robot) w)
   \<and> fst (sad_expression r w) = Returned ()
   \<and> device_calls (emitted (sad_expression r) w)
       = device_calls (emitted (sad_expression reliable_robot) w)
   \<and> fst (surprised_expression r w) = Returned ()
   \<and> device_calls (emitted (surprised_expression r) w)
       = device_calls (emitted (surprised_expression reliable_robot) w)
   \<and> fst (curious_expression r w) = Returned ()
   \<and> device_calls (emitted (curious_expression r) w)
       = device_calls (emitted (curious_expression reliable_robot) w)
   \<and> fst (excited_expression r w) = Returned ()
   \<and> device_calls (emitted (excited_expression r) w)
       = device_calls (emitted (excited_expression reliable_robot) w)
   \<and> fst (sleepy_expression r w) = Returned ()
   \<and> device_calls (emitted (sleepy_expression r) w)
       = device_calls (emitted (sleepy_expression reliable_robot) w)
   \<and> fst (confused_expression r w) = Returned ()
   \<and> device_calls (emitted (confused_expression r) w)
       = device_calls (emitted (confused_expression reliable_robot) w)
   \<and> fst (angry_expression r w) = Returned ()
   \<and> device_calls (emitted (angry_expression r) w)
       = device_calls (emitted (angry_expression reliable_robot) w)
   \<and> fst (love_expression r w) = Returned ()
   \<and> device_calls (emitted (love_expression r) w)
       = device_calls (emitted (love_expression reliable_robot) w)"
  by (intro conjI goto_target_run do_dance_returns do_dance_same_calls)
     (simp_all only: choreography_returns choreography_calls)

text \<open>
  The run asked for by the specification: the robot fails the second call of the three-step
  choreography \<open>happy\<close>; all three calls are issued and the failure is logged after the
  second.
\<close>

theorem device_failure_is_absorbed_witness:
  "happy_expression fails_second_call [] =
     (Returned (),
      [Device (GotoTarget (Some (create_head_pose (PyInt 15) (PyInt 0) (PyInt 0)))
         (Some [PyFloat 0.5, PyFloat (- 0.5)]) (PyFloat 0.2)),
       Sleep (PyFloat 0.15),
       Device (GotoTarget (Some (create_head_pose (PyInt (- 15)) (PyInt 0) (PyInt 0)))
         (Some [PyFloat (- 0.5), PyFloat 0.5]) (PyFloat 0.2)),
       Log ERROR ''Motion error: actuator fault'',
       Sleep (PyFloat 0.15),
       Device (GotoTarget (Some (create_head_pose (PyInt 0) (PyInt 0) (PyInt 0)))
         (Some [PyFloat 0.3, PyFloat (- 0.3)]) (PyFloat 0.2))])"
proof -
  note run = device_failure_is_absorbed [where r = fails_second_call, THEN conjunct1]
  show ?thesis
    by (simp add: happy_expression_def io_bind_def io_return_def asyncio_sleep_def run
        fails_second_call_def)
qed

section \<open>Totality of the operations\<close>

lemma move_head_returns:
  "fst (move_head r direction duration w) =
     Returned (''Moved head '' @ (if map_of poses direction = None then ''center'' else direction))"
proof (cases "map_of poses direction")
  case None
  show ?thesis
    by (simp add: emits_run(1) [OF move_head_unknown_emits [OF None]] None)
next
  case (Some p)
  obtain rl pt yw where "p = (rl, pt, yw)" by (cases p)
  then have known: "map_of poses direction = Some (rl, pt, yw)" using Some by simp
  show ?thesis
    by (simp add: emits_run(1) [OF move_head_known_emits [OF known]] known)
qed

lemma antenna_expression_returns:
  "fst (antenna_expression r expression w) =
     Returned (''Set antennas to ''
               @ (if map_of expressions expression = None then ''neutral'' else expression))"
proof (cases "map_of expressions expression")
  case None
  show ?thesis
    by (simp add: emits_run(1) [OF antenna_expression_unknown_emits [OF None]] None)
next
  case (Some antennas)
  show ?thesis
    by (simp add: emits_run(1) [OF antenna_expression_known_emits [OF Some]] Some)
qed

lemma express_emotion_returns:
  "fst (express_emotion r emotion w) =
     Returned ((if map_of (emotion_methods r) emotion = None then ''Unknown emotion: ''
                else ''Expressed '') @ emotion)"
proof (cases "map_of (emotion_methods r) emotion")
  case None
  show ?thesis
    by (simp add: express_emotion_unknown_run [OF None] None)
next
  case (Some m)
  from emotion_method_emits [OF Some] obtain t where t: "emits m () t" by blast
  show ?thesis
    by (simp add: emits_run(1) [OF express_emotion_known_emits [OF Some t]] Some)
qed

lemma wake_up_returns:
  "fst (wake_up r w) =
     Returned (case r (w @ [Log INFO ''Performing wake up animation'']) WakeUp of
                 None \<Rightarrow> ''Woke up and ready!''
               | Some e \<Rightarrow> ''Wake up failed: '' @ e)"
  by (simp add: wake_up_run split: option.split)

lemma go_to_sleep_returns:
  "fst (go_to_sleep r w) =
     Returned (case r (w @ [Log INFO ''Going to sleep'']) GotoSleep of
                 None \<Rightarrow> ''Going to sleep...''
               | Some e \<Rightarrow> ''Sleep failed: '' @ e)"
  by (simp add: go_to_sleep_run split: option.split)

text \<open>
  Twelve of the thirteen operations, on any arguments of their parameter types (numbers out
  of range and unknown names included), any robot (failing whenever it likes) and from any
  trace, end by returning a non-empty string; so does \<^verbatim>\<open>move_antennas\<close> when
  \<^verbatim>\<open>np.radians\<close> converts both of its angles.
\<close>

lemma operations_total_when_converted:
  "descriptive (fst (move_head r direction duration w))
   \<and> descriptive (fst (move_head_precise r float_str roll pitch yaw duration w))
   \<and> descriptive (fst (antenna_expression r expression w))
   \<and> descriptive (fst (nod_yes r ntimes w))
   \<and> descriptive (fst (shake_no r ntimes w))
   \<and> descriptive (fst (tilt_head r float_str direction angle w))
   \<and> descriptive (fst (look_at_camera r w))
   \<and> descriptive (fst (wake_up r w))
   \<and> descriptive (fst (go_to_sleep r w))
   \<and> descriptive (fst (express_emotion r emotion w))
   \<and> descriptive (fst (do_dance r style w))
   \<and> descriptive (fst (reset_position r w))
   \<and> (np_radians right_angle = Returned right_converted
        \<and> np_radians left_angle = Returned left_converted
        \<longrightarrow> descriptive (fst (move_antennas r float_str right_angle left_angle duration w)))"
proof -
  have "descriptive (fst (move_antennas r float_str right_angle left_angle duration w))"
    if "np_radians right_angle = Returned right_converted"
      and "np_radians left_angle = Returned left_converted"
    by (simp add: emits_run(1) [OF move_antennas_emits [OF that]])
  then show ?thesis
    by (simp add: move_head_returns emits_run(1) [OF move_head_precise_emits]
        antenna_expression_returns
        emits_run(1) [OF nod_yes_emits] emits_run(1) [OF shake_no_emits]
        emits_run(1) [OF tilt_head_emits] emits_run(1) [OF look_at_camera_emits]
        wake_up_returns go_to_sleep_returns express_emotion_returns do_dance_returns
        emits_run(1) [OF reset_position_emits] split: option.split)
qed

text \<open>
  C6 fails on the code. \<^verbatim>\<open>move_antennas(right_angle=10**20, left_angle=0)\<close>: the int
  \<open>10 ^ 20\<close> lies beyond the 64-bit range, \<^verbatim>\<open>np.radians\<close> raises \<^verbatim>\<open>TypeError\<close> before the
  clamp is reached, and nothing catches it: the call ends with the exception, on every
  robot and from every trace, having written no log line and called the robot not at all.
\<close>

theorem move_antennas_raises_to_caller:
  "move_antennas r float_str (PyInt (10 ^ 20)) (PyInt 0) duration w
     = (Raised (''loop of ufunc does not support argument 0 of type int ''
                @ ''which has no callable radians method''), w)
   \<and> \<not> descriptive (fst (move_antennas r float_str (PyInt (10 ^ 20)) (PyInt 0) duration w))"
proof -
  have "np_radians (PyInt (10 ^ 20))
          = Raised (''loop of ufunc does not support argument 0 of type int ''
                    @ ''which has no callable radians method'')"
    by (simp add: np_radians_def)
  then show ?thesis
    by (simp add: move_antennas_raises_right)
qed

section \<open>Examples of the specification\<close>

lemma str_int_examples: "str_int 0 = ''0''" "str_int 5 = ''5''" "str_int 30 = ''30''"
  "str_int 100 = ''100''" "str_int (- 120) = ''-120''"
  by (simp_all add: str_int_def str_nat.simps)

text \<open>
  C7. \<^verbatim>\<open>move_head_precise(roll=50, pitch=0, yaw=0)\<close>: the roll is clamped to 30 before the
  pose is built, the robot is sent the pose with roll 30, and the log line and the returned
  string print 30. The same holds for the float \<^verbatim>\<open>50.0\<close>, whose clamp is the int 30.
\<close>

theorem move_head_precise_reports_clamped_roll:
  "clamp_roll (PyInt 50) = PyInt 30
   \<and> clamp_roll (PyFloat 50) = PyInt 30
   \<and> fst (move_head_precise r float_str (PyInt 50) (PyInt 0) (PyInt 0) duration w)
       = Returned ''Moved head to roll=30, pitch=0, yaw=0''
   \<and> device_calls (emitted (move_head_precise r float_str (PyInt 50) (PyInt 0) (PyInt 0) duration) w)
       = [GotoTarget (Some (create_head_pose (PyInt 30) (PyInt 0) (PyInt 0))) None duration]
   \<and> Log INFO ''Moving head to roll=30, pitch=0, yaw=0''
       \<in> set (emitted (move_head_precise r float_str (PyInt 50) (PyInt 0) (PyInt 0) duration) w)"
proof -
  have c: "clamp_roll (PyInt 50) = PyInt 30" "clamp_roll (PyFloat 50) = PyInt 30"
    "clamp_pitch (PyInt 0) = PyInt 0" "clamp_yaw (PyInt 0) = PyInt 0"
    by (simp_all add: clamp_roll_def clamp_pitch_def clamp_yaw_def clamp_def py_max_def py_min_def)
  have "Log INFO ''Moving head to roll=30, pitch=0, yaw=0''
       \<in> set (emitted (move_head_precise r float_str (PyInt 50) (PyInt 0) (PyInt 0) duration) w)"
    by (simp add: emitted_def move_head_precise_def Let_def returning_def io_bind_def logger_def
        goto_target_run io_return_def c str_int_examples split: option.split)
  then show ?thesis
    by (simp add: c emits_run(1) [OF move_head_precise_emits]
        emits_run(3) [OF move_head_precise_emits] str_int_examples)
qed

text \<open>
  C8. \<^verbatim>\<open>nod_yes(times=10)\<close>: the count is clamped to 5 and the robot receives five times the
  pair down, up and then the centre pose, eleven calls in all. For every \<open>times\<close> the clamped
  count lies in \<open>[1, 5]\<close> and the number of calls is twice the clamped count plus one; the same
  holds for \<^verbatim>\<open>shake_no\<close>.
\<close>

theorem nod_yes_ten_issues_eleven_calls:
  "fst (nod_yes r 10 w) = Returned ''Nodded yes 5 times''
   \<and> device_calls (emitted (nod_yes r 10) w)
       = concat (replicate 5
           [GotoTarget (Some (create_head_pose (PyInt 0) (PyInt 15) (PyInt 0))) None
              (PyFloat 0.15),
            GotoTarget (Some (create_head_pose (PyInt 0) (PyInt (- 10)) (PyInt 0))) None
              (PyFloat 0.15)])
         @ [GotoTarget (Some (create_head_pose (PyInt 0) (PyInt 0) (PyInt 0))) None (PyFloat 0.2)]
   \<and> length (device_calls (emitted (nod_yes r 10) w)) = 11
   \<and> 1 \<le> max 1 (min 5 ntimes) \<and> max 1 (min 5 ntimes) \<le> 5
   \<and> fst (nod_yes r ntimes w)
       = Returned (''Nodded yes '' @ str_int (max 1 (min 5 ntimes)) @ '' times'')
   \<and> length (device_calls (emitted (nod_yes r ntimes) w)) = 2 * nat (max 1 (min 5 ntimes)) + 1
   \<and> fst (shake_no r 10 w) = Returned ''Shook head no 5 times''
   \<and> length (device_calls (emitted (shake_no r 10) w)) = 11
   \<and> fst (shake_no r ntimes w)
       = Returned (''Shook head no '' @ str_int (max 1 (min 5 ntimes)) @ '' times'')
   \<and> length (device_calls (emitted (shake_no r ntimes) w)) = 2 * nat (max 1 (min 5 ntimes)) + 1"
  by (intro conjI)
     (simp_all add: emits_run(1) [OF nod_yes_emits] emits_run(3) [OF nod_yes_emits]
        emits_run(1) [OF shake_no_emits] emits_run(3) [OF shake_no_emits]
        device_calls_append device_calls_concat_replicate length_concat_replicate
        str_int_examples)

section \<open>Antennas: radians to the robot, degrees to the caller\<close>

lemma radians_beyond_right_angle:
  "90 < x \<Longrightarrow> 157 / 100 < x * pi / 180" "x < - 90 \<Longrightarrow> x * pi / 180 < - (157 / 100)"
proof -
  have p: "0 < pi" by simp
  have q: "157 / 100 * 180 < 90 * pi" using right_angle_gt_157 by linarith
  { assume "90 < x"
    then have "90 * pi < x * pi" using p by (rule mult_strict_right_mono)
    then show "157 / 100 < x * pi / 180" using q by linarith }
  { assume "x < - 90"
    then have "x * pi < - 90 * pi" using p by (rule mult_strict_right_mono)
    then show "x * pi / 180 < - (157 / 100)" using q by linarith }
qed

lemma clamp_rad_outside:
  "157 / 100 < y \<Longrightarrow> clamp_rad (PyFloat y) = PyFloat 1.57"
  "y < - (157 / 100) \<Longrightarrow> clamp_rad (PyFloat y) = PyFloat (- 1.57)"
  by (simp_all add: clamp_rad_def clamp_def py_max_def py_min_def)

lemma clamp_rad_saturates:
  "90 < val x \<Longrightarrow> clamp_rad (PyFloat (val x * pi / 180)) = PyFloat 1.57"
  "val x < - 90 \<Longrightarrow> clamp_rad (PyFloat (val x * pi / 180)) = PyFloat (- 1.57)"
  by (rule clamp_rad_outside, rule radians_beyond_right_angle, assumption)+

text \<open>
  When \<^verbatim>\<open>np.radians\<close> converts both angles, \<^verbatim>\<open>move_antennas\<close> clamps the radians to
  \<open>[-1.57, 1.57]\<close> and sends them to the robot, while the returned string prints the
  caller's two arguments as they came. For an argument above 90 degrees the robot is sent
  1.57, for one below -90 degrees -1.57: less, in size, than the angle reported.
\<close>

lemma move_antennas_clamps_radians_reports_degrees:
  assumes "np_radians right_angle = Returned right_converted"
    and "np_radians left_angle = Returned left_converted"
  shows "device_calls (emitted (move_antennas r float_str right_angle left_angle duration) w)
     = [GotoTarget None (Some [clamp_rad right_converted, clamp_rad left_converted]) duration]
   \<and> right_converted = PyFloat (val right_angle * pi / 180)
   \<and> left_converted = PyFloat (val left_angle * pi / 180)
   \<and> val (clamp_rad right_converted) = max (- 1.57) (min 1.57 (val right_angle * pi / 180))
   \<and> val (clamp_rad left_converted) = max (- 1.57) (min 1.57 (val left_angle * pi / 180))
   \<and> fst (move_antennas r float_str right_angle left_angle duration w)
       = Returned (''Moved antennas to right='' @ py_str float_str right_angle
                   @ '', left='' @ py_str float_str left_angle @ '' degrees'')
   \<and> (90 < val right_angle \<longrightarrow>
         clamp_rad right_converted = PyFloat 1.57
         \<and> val (clamp_rad right_converted) < val right_angle * pi / 180)
   \<and> (val right_angle < - 90 \<longrightarrow>
         clamp_rad right_converted = PyFloat (- 1.57)
         \<and> val right_angle * pi / 180 < val (clamp_rad right_converted))"
proof -
  note r = np_radians_Returned [OF assms(1)] and l = np_radians_Returned [OF assms(2)]
  have "90 < val right_angle \<longrightarrow>
         clamp_rad right_converted = PyFloat 1.57
         \<and> val (clamp_rad right_converted) < val right_angle * pi / 180"
    using radians_beyond_right_angle(1) [of "val right_angle"]
    by (simp add: r clamp_rad_saturates(1))
  moreover have "val right_angle < - 90 \<longrightarrow>
         clamp_rad right_converted = PyFloat (- 1.57)
         \<and> val right_angle * pi / 180 < val (clamp_rad right_converted)"
    using radians_beyond_right_angle(2) [of "val right_angle"]
    by (simp add: r clamp_rad_saturates(2))
  moreover have "val (clamp_rad right_converted)
                   = max (- 1.57) (min 1.57 (val right_angle * pi / 180))"
    "val (clamp_rad left_converted) = max (- 1.57) (min 1.57 (val left_angle * pi / 180))"
    by (simp_all add: r l clamp_rad_def val_clamp)
  ultimately show ?thesis
    using r l
    by (simp only: emits_run(1) [OF move_antennas_emits [OF assms]]
        emits_run(3) [OF move_antennas_emits [OF assms]] device_calls.simps simp_thms)
qed

lemma move_antennas_example:
  "device_calls
     (emitted (move_antennas reliable_robot (\<lambda>x. []) (PyInt 100) (PyInt (- 120)) (PyFloat 0.3))
        [])
     = [GotoTarget None (Some [PyFloat 1.57, PyFloat (- 1.57)]) (PyFloat 0.3)]
   \<and> fst (move_antennas reliable_robot (\<lambda>x. []) (PyInt 100) (PyInt (- 120)) (PyFloat 0.3) [])
      = Returned ''Moved antennas to right=100, left=-120 degrees''"
proof -
  have a: "np_radians (PyInt 100) = Returned (PyFloat (val (PyInt 100) * pi / 180))"
    and b: "np_radians (PyInt (- 120)) = Returned (PyFloat (val (PyInt (- 120)) * pi / 180))"
    by (simp_all add: np_radians_def)
  have c: "clamp_rad (PyFloat (val (PyInt 100) * pi / 180)) = PyFloat 1.57"
    by (rule clamp_rad_saturates(1)) simp
  have d: "clamp_rad (PyFloat (val (PyInt (- 120)) * pi / 180)) = PyFloat (- 1.57)"
    by (rule clamp_rad_saturates(2)) simp
  show ?thesis
    using move_antennas_clamps_radians_reports_degrees
      [OF a b, of reliable_robot "\<lambda>x. []" "PyFloat 0.3" "[]"]
    by (simp only: c d py_str.simps str_int_examples append.simps)
qed

text \<open>
  C9 fails on the code. \<^verbatim>\<open>move_antennas(right_angle=100, left_angle=-10**20)\<close>: both
  arguments are outside the range of 90 degrees, but the left one is an int beyond the
  64-bit range. \<^verbatim>\<open>np.radians\<close> raises \<^verbatim>\<open>TypeError\<close> on it before the clamp is reached, so
  no radian value is clamped, the robot is sent nothing, and no status string comes back:
  the call ends with the exception and leaves the trace as it was.
\<close>

theorem move_antennas_huge_int_not_clamped:
  "move_antennas r float_str (PyInt 100) (PyInt (- (10 ^ 20))) duration w
     = (Raised (''loop of ufunc does not support argument 0 of type int ''
                @ ''which has no callable radians method''), w)
   \<and> device_calls
        (emitted (move_antennas r float_str (PyInt 100) (PyInt (- (10 ^ 20))) duration) w) = []"
proof -
  have a: "np_radians (PyInt 100) = Returned (PyFloat (real_of_int 100 * pi / 180))"
    by (rule np_radians_int) simp_all
  have b: "np_radians (PyInt (- (10 ^ 20)))
          = Raised (''loop of ufunc does not support argument 0 of type int ''
                    @ ''which has no callable radians method'')"
    by (simp add: np_radians_def)
  show ?thesis
    using move_antennas_raises_left [OF a b, of r float_str duration w]
    by (simp add: emitted_def)
qed

section \<open>Tilting the head\<close>

lemma tilt_head_run:
  "tilt_head r float_str direction angle w =
     (let angle' = clamp (PyInt 5) (PyInt 30) angle;
          roll = (if direction = ''left'' then angle' else py_neg angle');
          line = Log INFO (''Tilting head '' @ direction @ '' by '' @ py_str float_str angle'
                           @ '' degrees'');
          call = GotoTarget (Some (create_head_pose roll (PyInt 0) (PyInt 0))) None (PyFloat 0.4)
      in (Returned (''Tilted head '' @ direction),
          w @ line # Device call
              # (case r (w @ [line]) call of
                   None \<Rightarrow> []
                 | Some e \<Rightarrow> [Log ERROR (''Motion error: '' @ e)])))"
  by (simp add: tilt_head_def Let_def returning_def io_bind_def logger_def goto_target_run
      io_return_def)

text \<open>
  C10. \<^verbatim>\<open>tilt_head\<close> with a direction other than \<^verbatim>\<open>"left"\<close>: the angle is clamped to
  \<open>[5, 30]\<close> (an angle below 5 becomes 5), the robot is sent the roll \<open>- angle\<close> (a tilt to the
  right, never the centre), no WARNING line is written, and the returned string ends with the
  caller's direction as it came.
\<close>

theorem tilt_head_not_left_tilts_right:
  assumes "direction \<noteq> ''left''"
  shows "fst (tilt_head r float_str direction angle w) = Returned (''Tilted head '' @ direction)
    \<and> device_calls (emitted (tilt_head r float_str direction angle) w)
        = [GotoTarget
             (Some (create_head_pose (py_neg (clamp (PyInt 5) (PyInt 30) angle)) (PyInt 0)
                      (PyInt 0)))
             None (PyFloat 0.4)]
    \<and> val (py_neg (clamp (PyInt 5) (PyInt 30) angle)) = - max 5 (min 30 (val angle))
    \<and> val (py_neg (clamp (PyInt 5) (PyInt 30) angle)) \<le> - 5
    \<and> - 30 \<le> val (py_neg (clamp (PyInt 5) (PyInt 30) angle))
    \<and> (val angle < 5 \<longrightarrow> clamp (PyInt 5) (PyInt 30) angle = PyInt 5)
    \<and> Log WARNING msg \<notin> set (emitted (tilt_head r float_str direction angle) w)"
proof -
  have "Log WARNING msg \<notin> set (emitted (tilt_head r float_str direction angle) w)"
    by (simp add: emitted_def tilt_head_run Let_def split: option.split)
  moreover have "val angle < 5 \<longrightarrow> clamp (PyInt 5) (PyInt 30) angle = PyInt 5"
    by (simp add: clamp_def py_max_def py_min_def)
  ultimately show ?thesis
    using assms
    by (simp add: emits_run(1) [OF tilt_head_emits] emits_run(3) [OF tilt_head_emits]
        val_py_neg val_clamp)
qed

theorem tilt_head_not_left_tilts_right_witness:
  "''up'' \<noteq> ''left''
   \<and> tilt_head reliable_robot (\<lambda>x. []) ''up'' (PyInt 2) [] =
       (Returned ''Tilted head up'',
        [Log INFO ''Tilting head up by 5 degrees'',
         Device (GotoTarget (Some (create_head_pose (PyInt (- 5)) (PyInt 0) (PyInt 0))) None
                   (PyFloat 0.4))])"
proof -
  have ne: "''up'' \<noteq> ''left''" by simp
  have c: "clamp (PyInt 5) (PyInt 30) (PyInt 2) = PyInt 5"
    using tilt_head_not_left_tilts_right [OF ne, of _ _ "PyInt 2"] by simp
  show ?thesis
    by (simp add: tilt_head_run c reliable_robot_def str_int_examples)
qed

section \<open>Unknown names\<close>

lemma move_head_unknown_run:
  assumes "map_of poses direction = None"
  shows "move_head r direction duration w =
     (let warning = Log WARNING (''Unknown direction: '' @ direction @ '', using center'');
          line = Log INFO ''Moving head center'';
          call = GotoTarget (Some (create_head_pose (PyInt 0) (PyInt 0) (PyInt 0))) None duration
      in (Returned ''Moved head center'',
          w @ warning # line # Device call
              # (case r (w @ [warning, line]) call of
                   None \<Rightarrow> []
                 | Some e \<Rightarrow> [Log ERROR (''Motion error: '' @ e)])))"
  using assms
  by (simp add: move_head_def Let_def poses_def returning_def io_bind_def logger_def
      goto_target_run io_return_def)

text \<open>
  C1, as the code has it. A name that is not a key of the table:
  \<^item> \<^verbatim>\<open>move_head\<close> writes a WARNING line naming the direction, then behaves as for
    \<^verbatim>\<open>"center"\<close>: one call with the pose (0, 0, 0), result \<^verbatim>\<open>"Moved head center"\<close>;
  \<^item> \<^verbatim>\<open>antenna_expression\<close> behaves as for \<^verbatim>\<open>"neutral"\<close>: one call with antennas [0, 0],
    result \<^verbatim>\<open>"Set antennas to neutral"\<close>;
  \<^item> \<^verbatim>\<open>express_emotion\<close> calls the robot not at all: it writes its INFO line and a WARNING
    line and returns \<^verbatim>\<open>"Unknown emotion: <name>"\<close>;
  \<^item> \<^verbatim>\<open>do_dance\<close> with a style other than \<^verbatim>\<open>"silly"\<close> moves as for \<^verbatim>\<open>"default"\<close> and
    returns \<^verbatim>\<open>"Finished <style> dance"\<close> with the caller's style.
  None of the four ends with an exception.
\<close>

theorem unknown_names_resolve:
  "(direction \<notin> fst ` set poses \<longrightarrow>
      fst (move_head r direction duration w) = Returned ''Moved head center''
      \<and> timeline (emitted (move_head r direction duration) w)
          = [Device (GotoTarget (Some (create_head_pose (PyInt 0) (PyInt 0) (PyInt 0))) None
                       duration)]
      \<and> timeline (emitted (move_head r direction duration) w)
          = timeline (emitted (move_head r ''center'' duration) w)
      \<and> Log WARNING (''Unknown direction: '' @ direction @ '', using center'')
          \<in> set (emitted (move_head r direction duration) w))
   \<and> (expression \<notin> fst ` set expressions \<longrightarrow>
      fst (antenna_expression r expression w) = Returned ''Set antennas to neutral''
      \<and> timeline (emitted (antenna_expression r expression) w)
          = [Device (GotoTarget None (Some [PyInt 0, PyInt 0]) (PyFloat 0.3))]
      \<and> timeline (emitted (antenna_expression r expression) w)
          = timeline (emitted (antenna_expression r ''neutral'') w))
   \<and> (emotion \<notin> fst ` set (emotion_methods r) \<longrightarrow>
      express_emotion r emotion w
        = (Returned (''Unknown emotion: '' @ emotion),
           w @ [Log INFO (''Expressing emotion: '' @ emotion),
                Log WARNING (''Unknown emotion: '' @ emotion)]))
   \<and> (style \<notin> {''default'', ''happy'', ''silly''} \<longrightarrow>
      fst (do_dance r style w) = Returned (''Finished '' @ style @ '' dance'')
      \<and> timeline (emitted (do_dance r style) w)
          = timeline (emitted (do_dance r ''default'') w))"
proof (intro conjI impI)
  assume "direction \<notin> fst ` set poses"
  then have none: "map_of poses direction = None" by (simp add: map_of_eq_None_iff)
  have center: "map_of poses ''center'' = Some (PyInt 0, PyInt 0, PyInt 0)"
    by (simp add: poses_def)
  show "fst (move_head r direction duration w) = Returned ''Moved head center''"
    by (simp add: emits_run(1) [OF move_head_unknown_emits [OF none]])
  show "timeline (emitted (move_head r direction duration) w)
          = [Device (GotoTarget (Some (create_head_pose (PyInt 0) (PyInt 0) (PyInt 0))) None
                       duration)]"
    by (rule emits_run(2) [OF move_head_unknown_emits [OF none]])
  show "timeline (emitted (move_head r direction duration) w)
          = timeline (emitted (move_head r ''center'' duration) w)"
    by (simp only: emits_run(2) [OF move_head_unknown_emits [OF none]]
        emits_run(2) [OF move_head_known_emits [OF center]])
  show "Log WARNING (''Unknown direction: '' @ direction @ '', using center'')
          \<in> set (emitted (move_head r direction duration) w)"
    by (simp add: emitted_def move_head_unknown_run [OF none] Let_def)
next
  assume "expression \<notin> fst ` set expressions"
  then have none: "map_of expressions expression = None" by (simp add: map_of_eq_None_iff)
  have neutral: "map_of expressions ''neutral'' = Some [PyInt 0, PyInt 0]"
    by (simp add: expressions_def)
  show "fst (antenna_expression r expression w) = Returned ''Set antennas to neutral''"
    by (simp add: emits_run(1) [OF antenna_expression_unknown_emits [OF none]])
  show "timeline (emitted (antenna_expression r expression) w)
          = [Device (GotoTarget None (Some [PyInt 0, PyInt 0]) (PyFloat 0.3))]"
    by (rule emits_run(2) [OF antenna_expression_unknown_emits [OF none]])
  show "timeline (emitted (antenna_expression r expression) w)
          = timeline (emitted (antenna_expression r ''neutral'') w)"
    by (simp only: emits_run(2) [OF antenna_expression_unknown_emits [OF none]]
        emits_run(2) [OF antenna_expression_known_emits [OF neutral]])
next
  assume "emotion \<notin> fst ` set (emotion_methods r)"
  then have none: "map_of (emotion_methods r) emotion = None" by (simp add: map_of_eq_None_iff)
  show "express_emotion r emotion w
        = (Returned (''Unknown emotion: '' @ emotion),
           w @ [Log INFO (''Expressing emotion: '' @ emotion),
                Log WARNING (''Unknown emotion: '' @ emotion)])"
    by (rule express_emotion_unknown_run [OF none])
next
  assume style: "style \<notin> {''default'', ''happy'', ''silly''}"
  show "fst (do_dance r style w) = Returned (''Finished '' @ style @ '' dance'')"
    by (rule do_dance_returns)
  have a: "style \<noteq> ''silly''" using style by simp
  have b: "''default'' \<noteq> ''silly''" by simp
  show "timeline (emitted (do_dance r style) w) = timeline (emitted (do_dance r ''default'') w)"
    by (simp only: emits_run(2) [OF do_dance_other_emits [OF a]]
        emits_run(2) [OF do_dance_other_emits [OF b]])
qed

theorem unknown_names_resolve_witness:
  "''sideways'' \<notin> fst ` set poses
   \<and> move_head reliable_robot ''sideways'' (PyFloat 0.5) []
      = (Returned ''Moved head center'',
         [Log WARNING ''Unknown direction: sideways, using center'',
          Log INFO ''Moving head center'',
          Device (GotoTarget (Some (create_head_pose (PyInt 0) (PyInt 0) (PyInt 0))) None
                    (PyFloat 0.5))])
   \<and> ''nonexistent'' \<notin> fst ` set expressions
   \<and> fst (antenna_expression reliable_robot ''nonexistent'' []) = Returned ''Set antennas to neutral''
   \<and> timeline (emitted (antenna_expression reliable_robot ''nonexistent'') [])
      = [Device (GotoTarget None (Some [PyInt 0, PyInt 0]) (PyFloat 0.3))]
   \<and> ''bored'' \<notin> fst ` set (emotion_methods reliable_robot)
   \<and> express_emotion reliable_robot ''bored'' []
      = (Returned ''Unknown emotion: bored'',
         [Log INFO ''Expressing emotion: bored'', Log WARNING ''Unknown emotion: bored''])
   \<and> ''robot'' \<notin> {''default'', ''happy'', ''silly''}
   \<and> fst (do_dance reliable_robot ''robot'' []) = Returned ''Finished robot dance''
   \<and> timeline (emitted (do_dance reliable_robot ''robot'') [])
      = timeline (emitted (do_dance reliable_robot ''default'') [])"
proof -
  have 1: "''sideways'' \<notin> fst ` set poses" by (simp add: poses_def)
  have 2: "''nonexistent'' \<notin> fst ` set expressions" by (simp add: expressions_def)
  have 3: "''bored'' \<notin> fst ` set (emotion_methods reliable_robot)"
    by (simp add: emotion_methods_def)
  have 4: "''robot'' \<notin> {''default'', ''happy'', ''silly''}" by simp
  have none: "map_of poses ''sideways'' = None" using 1 by (simp add: map_of_eq_None_iff)
  have run: "move_head reliable_robot ''sideways'' (PyFloat 0.5) []
      = (Returned ''Moved head center'',
         [Log WARNING ''Unknown direction: sideways, using center'',
          Log INFO ''Moving head center'',
          Device (GotoTarget (Some (create_head_pose (PyInt 0) (PyInt 0) (PyInt 0))) None
                    (PyFloat 0.5))])"
    by (simp add: move_head_unknown_run [OF none] Let_def reliable_robot_def)
  show ?thesis
    using unknown_names_resolve
      [of "''sideways''" reliable_robot "PyFloat 0.5" "[]" "''nonexistent''" "''bored''"
          "''robot''"]
      1 2 3 4 run
    by simp
qed

text \<open>
  C1, as stated, fails: for an unknown emotion no neutral expression is played (the robot is
  not called at all), and for an unknown antenna expression the fallback leaves no trace in
  the log (the only line is the usual INFO line, naming \<^verbatim>\<open>neutral\<close>).
\<close>

theorem unknown_names_counterexample:
  "express_emotion reliable_robot ''bored'' []
     = (Returned ''Unknown emotion: bored'',
        [Log INFO ''Expressing emotion: bored'', Log WARNING ''Unknown emotion: bored''])
   \<and> device_calls (emitted (express_emotion reliable_robot ''bored'') []) = []
   \<and> antenna_expression reliable_robot ''nonexistent'' []
     = (Returned ''Set antennas to neutral'',
        [Log INFO ''Setting antenna expression: neutral'',
         Device (GotoTarget None (Some [PyInt 0, PyInt 0]) (PyFloat 0.3))])"
proof -
  have none: "map_of (emotion_methods reliable_robot) ''bored'' = None"
    by (simp add: emotion_methods_def)
  have "antenna_expression reliable_robot ''nonexistent'' []
     = (Returned ''Set antennas to neutral'',
        [Log INFO ''Setting antenna expression: neutral'',
         Device (GotoTarget None (Some [PyInt 0, PyInt 0]) (PyFloat 0.3))])"
    by (simp add: antenna_expression_def expressions_def Let_def returning_def io_bind_def
        logger_def goto_target_run io_return_def reliable_robot_def)
  then show ?thesis
    by (simp add: express_emotion_unknown_run [OF none] emitted_def)
qed

end
